theory Spec2Isabelle
  imports Complex_Main "HOL-Library.Log_Nat" "HOL-Library.AList"
begin

section \<open>Numbers: the score is computed in double precision\<close>

text \<open>
  A JavaScript number is an IEEE-754 binary64 value. Every finite double is a rational, and
  each of \<^verbatim>\<open>/\<close>, \<^verbatim>\<open>*\<close> and \<^verbatim>\<open>+\<close> returns the exact result rounded to the nearest double,
  ties to the even significand. \<open>fl\<close> is that rounding on rationals, with a 53-bit
  significand. The exponent range is not modelled: the values of the score computation
  lie in \<open>[0, 150]\<close> and the quotients are at least \<open>2\<^sup>-\<^sup>3\<^sup>2\<close> (an array has fewer than
  \<open>2\<^sup>3\<^sup>2\<close> elements), far from overflow and from the subnormal numbers. The counters are
  integers below \<open>2\<^sup>3\<^sup>2\<close>, which doubles hold exactly, so they are naturals here.
\<close>

definition round_half_even :: "rat \<Rightarrow> int" where
  "round_half_even x =
     (let f = \<lfloor>x\<rfloor>; r = x - of_int f
      in if r < 1/2 then f else if 1/2 < r then f + 1 else if even f then f else f + 1)"

text \<open>\<open>ilog2 x\<close> is the binary exponent of a positive rational: \<open>2\<^sup>e \<le> x < 2\<^sup>e\<^sup>+\<^sup>1\<close>.\<close>

definition ilog2 :: "rat \<Rightarrow> int" where
  "ilog2 x = (let (a, b) = quotient_of x; e = bitlen a - bitlen b
              in if 2 powi e \<le> x then e else e - 1)"

definition fl :: "rat \<Rightarrow> rat" where
  "fl x = (let a = \<bar>x\<bar>; u = 2 powi (ilog2 a - 52)
           in sgn x * (of_int (round_half_even (a / u)) * u))"

text \<open>\<^verbatim>\<open>Math.round\<close>: the nearest integer, a tie going up.\<close>

definition Math_round :: "rat \<Rightarrow> int" where
  "Math_round x = \<lfloor>x + 1/2\<rfloor>"

text \<open>
  \<^verbatim>\<open>const totalAssessed = compliant + nonCompliant + partial;
  const overallScore = totalAssessed > 0
    ? Math.round((compliant / totalAssessed) * 100 + (partial / totalAssessed) * 50)
    : 0;\<close>
\<close>

definition overallScore :: "nat \<Rightarrow> nat \<Rightarrow> nat \<Rightarrow> int" where
  "overallScore compliant nonCompliant partial =
     (let totalAssessed = compliant + nonCompliant + partial
      in if totalAssessed > 0
         then Math_round (fl (fl (fl (of_nat compliant / of_nat totalAssessed) * 100)
                            + fl (fl (of_nat partial / of_nat totalAssessed) * 50)))
         else 0)"

datatype RiskLevel = low | medium | high | critical

definition calculateRiskLevel :: "int \<Rightarrow> RiskLevel" where
  "calculateRiskLevel score =
     (if score \<ge> 90 then low
      else if score \<ge> 70 then medium
      else if score \<ge> 50 then high
      else critical)"

text \<open>
  The formula of the specification, over the rationals:
  \<open>round (100 * c / totalAssessed + 50 * p / totalAssessed)\<close>, and \<open>0\<close> when nothing was
  assessed. It is stated here to be compared with \<open>overallScore\<close>.
\<close>

definition spec_score :: "nat \<Rightarrow> nat \<Rightarrow> nat \<Rightarrow> int" where
  "spec_score c nc p =
     (let totalAssessed = c + nc + p
      in if totalAssessed > 0
         then Math_round (100 * of_nat c / of_nat totalAssessed + 50 * of_nat p / of_nat totalAssessed)
         else 0)"

section \<open>Data model\<close>

text \<open>
  Records follow the interfaces of the type definitions; a field carries a prefix naming its
  record, since several interfaces share field names. An optional field is an \<open>option\<close>.
  Timestamps are naturals. Columns that no modelled operation reads or writes (target system,
  evidence, human review of an assessment) are left out.
\<close>

text \<open>
  A column of type \<^verbatim>\<open>UUID\<close> holds sixteen bytes, written here as their thirty-two
  hexadecimal digits in lower case. Where a statement binds a text to such a column the store
  reads it: sixteen pairs of hexadecimal digits of either case, a hyphen allowed after each
  group of four digits, the whole optionally in braces. It rejects any other text (22P02).
\<close>

datatype uuid = Uuid string
type_synonym timestamp = nat

definition isxdigit :: "char \<Rightarrow> bool" where
  "isxdigit c \<longleftrightarrow> c \<in> set ''0123456789abcdefABCDEF''"

definition lower_hex :: "char \<Rightarrow> char" where
  "lower_hex c =
     (if c = CHR ''A'' then CHR ''a'' else if c = CHR ''B'' then CHR ''b''
      else if c = CHR ''C'' then CHR ''c'' else if c = CHR ''D'' then CHR ''d''
      else if c = CHR ''E'' then CHR ''e'' else if c = CHR ''F'' then CHR ''f'' else c)"

text \<open>
  \<open>uuid_digits n src\<close> reads the last \<open>n\<close> of the sixteen bytes, byte \<open>16 - n\<close> first, and
  gives the digits read and the text left over. A hyphen is skipped after a byte of odd
  index, except the last byte.
\<close>

fun uuid_digits :: "nat \<Rightarrow> string \<Rightarrow> (string \<times> string) option" where
  "uuid_digits 0 src = Some ([], src)"
| "uuid_digits (Suc n) src =
     (case src of
        a # b # rest \<Rightarrow>
          if isxdigit a \<and> isxdigit b
          then (case uuid_digits n
                       (case rest of
                          [] \<Rightarrow> rest
                        | c # more \<Rightarrow> if c = CHR ''-'' \<and> odd (15 - n) \<and> 15 - n < 15
                                      then more else rest) of
                  None \<Rightarrow> None
                | Some (digits, left) \<Rightarrow> Some (lower_hex a # lower_hex b # digits, left))
          else None
      | _ \<Rightarrow> None)"

definition parse_uuid :: "string \<Rightarrow> uuid option" where
  "parse_uuid s =
     (case s of
        [] \<Rightarrow> None
      | c # src \<Rightarrow>
          if c = CHR ''{''
          then (case uuid_digits 16 src of
                  None \<Rightarrow> None
                | Some (digits, left) \<Rightarrow> if left = ''}'' then Some (Uuid digits) else None)
          else (case uuid_digits 16 s of
                  None \<Rightarrow> None
                | Some (digits, left) \<Rightarrow> if left = [] then Some (Uuid digits) else None))"

text \<open>
  A column of type \<^verbatim>\<open>VARCHAR(n)\<close> takes a text of at most \<open>n\<close> characters. Of a longer text
  it drops the excess when that is spaces only, and rejects the text otherwise (22001).
\<close>

definition varchar :: "nat \<Rightarrow> string \<Rightarrow> string option" where
  "varchar n s =
     (if length s \<le> n then Some s
      else if list_all (\<lambda>c. c = CHR '' '') (drop n s) then Some (take n s)
      else None)"

text \<open>
  No text of the store holds the character with code \<open>0\<close>, and the store rejects a statement
  that binds a text with that character (22021). \<open>bind_text\<close> and \<open>bind_varchar\<close> are a
  text from outside the store bound to a column of type \<^verbatim>\<open>TEXT\<close> or \<^verbatim>\<open>VARCHAR(n)\<close>;
  \<open>bind_opt\<close> is a value that may be \<^verbatim>\<open>null\<close>.
\<close>

definition text_ok :: "string \<Rightarrow> bool" where
  "text_ok s \<longleftrightarrow> list_all (\<lambda>c. c \<noteq> CHR 0x00) s"

definition bind_text :: "string \<Rightarrow> string option" where
  "bind_text s = (if text_ok s then Some s else None)"

definition bind_varchar :: "nat \<Rightarrow> string \<Rightarrow> string option" where
  "bind_varchar n s = (if text_ok s then varchar n s else None)"

definition bind_opt :: "(string \<Rightarrow> string option) \<Rightarrow> string option \<Rightarrow> string option option" where
  "bind_opt column s = (case s of None \<Rightarrow> Some None | Some v \<Rightarrow> map_option Some (column v))"

text \<open>
  \<^verbatim>\<open>interface ComplianceModuleConfig { enabled: boolean; [feature: string]: boolean; }\<close>
  The property \<^verbatim>\<open>enabled\<close> is always there; the other own properties are a list of key and
  value in property order.
\<close>

record ComplianceModuleConfig =
  enabled :: bool
  features :: "(string \<times> bool) list"

record ModuleConfigMap =
  gdpr :: ComplianceModuleConfig
  aiAct :: ComplianceModuleConfig
  nis2 :: ComplianceModuleConfig
  iso27001 :: ComplianceModuleConfig
  soc2 :: ComplianceModuleConfig
  hipaa :: ComplianceModuleConfig

text \<open>\<^verbatim>\<open>keyof ModuleConfigMap\<close>\<close>

datatype ModuleName = Gdpr | AiAct | Nis2 | Iso27001 | Soc2 | Hipaa

fun module_key :: "ModuleName \<Rightarrow> string" where
  "module_key Gdpr = ''gdpr''"
| "module_key AiAct = ''aiAct''"
| "module_key Nis2 = ''nis2''"
| "module_key Iso27001 = ''iso27001''"
| "module_key Soc2 = ''soc2''"
| "module_key Hipaa = ''hipaa''"

text \<open>\<^verbatim>\<open>moduleConfig[module]\<close>, read and written.\<close>

fun module_of :: "ModuleConfigMap \<Rightarrow> ModuleName \<Rightarrow> ComplianceModuleConfig" where
  "module_of m Gdpr = gdpr m"
| "module_of m AiAct = aiAct m"
| "module_of m Nis2 = nis2 m"
| "module_of m Iso27001 = iso27001 m"
| "module_of m Soc2 = soc2 m"
| "module_of m Hipaa = hipaa m"

fun module_update :: "ModuleName \<Rightarrow> ComplianceModuleConfig \<Rightarrow> ModuleConfigMap \<Rightarrow> ModuleConfigMap" where
  "module_update Gdpr c m = m\<lparr>gdpr := c\<rparr>"
| "module_update AiAct c m = m\<lparr>aiAct := c\<rparr>"
| "module_update Nis2 c m = m\<lparr>nis2 := c\<rparr>"
| "module_update Iso27001 c m = m\<lparr>iso27001 := c\<rparr>"
| "module_update Soc2 c m = m\<lparr>soc2 := c\<rparr>"
| "module_update Hipaa c m = m\<lparr>hipaa := c\<rparr>"

text \<open>
  Property access on a module object, which is a plain object parsed from JSON. Besides its
  own properties it inherits those of \<^verbatim>\<open>Object.prototype\<close>: the operator \<^verbatim>\<open>in\<close> finds them,
  reading one gives a function or an object and never a boolean, and assigning one creates an
  own property, except \<^verbatim>\<open>__proto__\<close>, whose inherited setter ignores a boolean.
\<close>

definition inherited_properties :: "string list" where
  "inherited_properties =
     [''constructor'', ''__defineGetter__'', ''__defineSetter__'', ''hasOwnProperty'',
      ''__lookupGetter__'', ''__lookupSetter__'', ''isPrototypeOf'', ''propertyIsEnumerable'',
      ''toString'', ''valueOf'', ''__proto__'', ''toLocaleString'']"

datatype PropertyValue = Boolean bool | Undefined | NotBoolean

definition own_property :: "ComplianceModuleConfig \<Rightarrow> string \<Rightarrow> bool option" where
  "own_property c k = (if k = ''enabled'' then Some (enabled c) else map_of (features c) k)"

definition get_property :: "ComplianceModuleConfig \<Rightarrow> string \<Rightarrow> PropertyValue" where
  "get_property c k =
     (case own_property c k of
        Some b \<Rightarrow> Boolean b
      | None \<Rightarrow> if k \<in> set inherited_properties then NotBoolean else Undefined)"

definition has_property :: "string \<Rightarrow> ComplianceModuleConfig \<Rightarrow> bool" where
  "has_property k c \<longleftrightarrow> own_property c k \<noteq> None \<or> k \<in> set inherited_properties"

definition set_property :: "string \<Rightarrow> bool \<Rightarrow> ComplianceModuleConfig \<Rightarrow> ComplianceModuleConfig" where
  "set_property k v c =
     (if k = ''enabled'' then c\<lparr>enabled := v\<rparr>
      else if k = ''__proto__'' \<and> own_property c k = None then c
      else c\<lparr>features := AList.update k v (features c)\<rparr>)"

definition DEFAULT_MODULE_CONFIG :: ModuleConfigMap where
  "DEFAULT_MODULE_CONFIG =
     \<lparr>gdpr = \<lparr>enabled = True,
               features = [(''dataExport'', True), (''dataErasure'', True),
                           (''consentManagement'', True), (''dataPortability'', True),
                           (''rectification'', True), (''restrictProcessing'', True)]\<rparr>,
      aiAct = \<lparr>enabled = True,
                features = [(''riskClassification'', True), (''humanOversight'', True),
                            (''transparencyLogging'', True), (''technicalDocumentation'', True),
                            (''friaAssessment'', True)]\<rparr>,
      nis2 = \<lparr>enabled = True,
               features = [(''incidentReporting'', True), (''securityMonitoring'', True),
                           (''supplyChainSecurity'', True), (''businessContinuity'', True)]\<rparr>,
      iso27001 = \<lparr>enabled = True,
                   features = [(''controlAssessment'', True), (''auditTrail'', True),
                               (''riskManagement'', True), (''accessControl'', True)]\<rparr>,
      soc2 = \<lparr>enabled = False,
               features = [(''securityControls'', False), (''availabilityControls'', False),
                           (''confidentialityControls'', False)]\<rparr>,
      hipaa = \<lparr>enabled = False,
                features = [(''phiProtection'', False), (''auditControls'', False),
                            (''accessManagement'', False)]\<rparr>\<rparr>"

record ComplianceConfig =
  cfg_id :: uuid
  cfg_tenantId :: string
  cfg_masterEnabled :: bool
  cfg_moduleConfig :: ModuleConfigMap
  cfg_createdAt :: timestamp
  cfg_updatedAt :: timestamp

datatype AuditAction = CREATE | UPDATE | TOGGLE_MASTER | TOGGLE_MODULE | TOGGLE_FEATURE

text \<open>
  The JSON documents stored in \<^verbatim>\<open>previous_state\<close> and \<^verbatim>\<open>new_state\<close>: the object
  \<^verbatim>\<open>{ masterEnabled }\<close>, the object \<^verbatim>\<open>{ masterEnabled, moduleConfig }\<close>, a module map, and
  a whole configuration row (\<^verbatim>\<open>row_to_json\<close> in the audit trigger).
\<close>

datatype StateSnapshot =
    MasterState bool
  | CreatedState bool ModuleConfigMap
  | ModuleState ModuleConfigMap
  | RowState ComplianceConfig

record ComplianceConfigAudit =
  aud_id :: uuid
  aud_configId :: uuid
  aud_tenantId :: string
  aud_action :: AuditAction
  aud_changedBy :: string
  aud_changeReason :: string
  aud_previousState :: "StateSnapshot option"
  aud_newState :: StateSnapshot
  aud_moduleAffected :: "string option"
  aud_featureAffected :: "string option"
  aud_previousValue :: "bool option"
  aud_newValue :: "bool option"
  aud_ipAddress :: "string option"
  aud_userAgent :: "string option"
  aud_sessionId :: "string option"
  aud_createdAt :: timestamp

datatype AssessmentStatus = pending | in_progress | completed | failed | cancelled
datatype FindingStatus = compliant | non_compliant | partial | not_applicable | not_assessed
datatype FindingSeverity = sev_critical | major | minor | observation
datatype RemediationStatus =
  not_required | rem_pending | rem_in_progress | rem_completed | accepted_risk | deferred

fun status_text :: "FindingStatus \<Rightarrow> string" where
  "status_text compliant = ''compliant''"
| "status_text non_compliant = ''non_compliant''"
| "status_text partial = ''partial''"
| "status_text not_applicable = ''not_applicable''"
| "status_text not_assessed = ''not_assessed''"

text \<open>The columns of \<^verbatim>\<open>compliance_controls\<close> that a run reads.\<close>

record ControlRow =
  ctl_id :: string
  ctl_frameworkId :: string
  ctl_controlNumber :: string
  ctl_domain :: "string option"
  ctl_title :: string
  ctl_implementationPriority :: int

record ComplianceAssessment =
  asm_id :: uuid
  asm_tenantId :: string
  asm_frameworkId :: string
  asm_scope :: "string list"
  asm_excludedControls :: "string list"
  asm_status :: AssessmentStatus
  asm_overallScore :: "int option"
  asm_riskLevel :: "RiskLevel option"
  asm_totalControlsAssessed :: nat
  asm_compliantControls :: nat
  asm_nonCompliantControls :: nat
  asm_partialControls :: nat
  asm_notApplicableControls :: nat
  asm_criticalFindings :: nat
  asm_majorFindings :: nat
  asm_minorFindings :: nat
  asm_observations :: nat
  asm_aiModelUsed :: "string option"
  asm_aiConfidence :: "rat option"
  asm_startedAt :: "timestamp option"
  asm_completedAt :: "timestamp option"
  asm_createdAt :: timestamp
  asm_updatedAt :: timestamp

record ControlFinding =
  fnd_id :: uuid
  fnd_assessmentId :: uuid
  fnd_controlId :: string
  fnd_tenantId :: string
  fnd_status :: FindingStatus
  fnd_severity :: "FindingSeverity option"
  fnd_findingTitle :: "string option"
  fnd_findingDescription :: "string option"
  fnd_aiAssessment :: "string option"
  fnd_aiConfidence :: "rat option"
  fnd_remediationRequired :: bool
  fnd_remediationStatus :: RemediationStatus
  fnd_remediationPlan :: "string option"
  fnd_remediationOwner :: "string option"
  fnd_remediationDueDate :: "timestamp option"
  fnd_humanVerified :: bool
  fnd_verifiedBy :: "uuid option"
  fnd_verifiedAt :: "timestamp option"
  fnd_verificationNotes :: "string option"
  fnd_createdAt :: timestamp
  fnd_updatedAt :: timestamp

record ComplianceServiceContext =
  ctx_tenantId :: string
  ctx_userId :: string
  ctx_requestId :: string
  ctx_sessionId :: "string option"
  ctx_ipAddress :: "string option"
  ctx_userAgent :: "string option"

record ToggleMasterRequest =
  tm_enabled :: bool
  tm_reason :: string

record ToggleModuleRequest =
  tg_module :: ModuleName
  tg_enabled :: bool
  tg_reason :: string
  tg_feature :: "string option"

record RunAssessmentRequest =
  run_useAI :: bool
  run_aiModel :: "string option"
  run_includeRecommendations :: "bool option"

text \<open>The argument \<^verbatim>\<open>updates\<close> of \<^verbatim>\<open>updateFinding\<close>: every key may be missing.\<close>

record FindingUpdates =
  upd_status :: "FindingStatus option"
  upd_severity :: "FindingSeverity option"
  upd_findingTitle :: "string option"
  upd_findingDescription :: "string option"
  upd_remediationPlan :: "string option"
  upd_remediationOwner :: "string option"
  upd_remediationDueDate :: "timestamp option"
  upd_remediationStatus :: "RemediationStatus option"
  upd_verificationNotes :: "string option"

section \<open>The store and its transactions\<close>

text \<open>
  The relational store is a record of tables, each a list of rows in insertion order. What an
  operation takes from outside is a parameter: the clock (\<^verbatim>\<open>NOW()\<close>, constant within a call),
  the identifiers that \<^verbatim>\<open>uuidv4()\<close> and \<^verbatim>\<open>uuid_generate_v4()\<close> return (taken to be new, so
  that no primary key clashes), the draws of \<^verbatim>\<open>Math.random()\<close>, and the two settings
  \<^verbatim>\<open>config.ai.enabled\<close> and \<^verbatim>\<open>config.ai.model\<close>. The rows of a store are taken to be well
  typed and to satisfy the constraints of the schema; a value is checked against the type of
  its column where a statement binds it from outside the store. The service is taken to
  connect with the role that owns the tables, to which the policies of row level security
  in the schema do not apply.
\<close>

record database =
  db_configs :: "ComplianceConfig list"
  db_audits :: "ComplianceConfigAudit list"
  db_controls :: "ControlRow list"
  db_assessments :: "ComplianceAssessment list"
  db_findings :: "ControlFinding list"

record env =
  env_now :: timestamp
  env_uuid :: "nat \<Rightarrow> uuid"
  env_random :: "nat \<Rightarrow> rat"
  env_aiEnabled :: bool
  env_aiModel :: string

text \<open>
  Errors are values. The source throws \<^verbatim>\<open>Error\<close> objects told apart by their message; the
  constructors carry the names of the specification's taxonomy:
  \<^item> \<open>ConfigNotFound\<close>: \<^verbatim>\<open>Compliance config not found for tenant ...\<close>
  \<^item> \<open>InvalidFeature\<close>: \<^verbatim>\<open>Feature ... not found in module ...\<close>
  \<^item> \<open>AssessmentNotFound\<close>: \<^verbatim>\<open>Assessment not found: ...\<close>
  \<^item> \<open>InvalidState\<close>: \<^verbatim>\<open>Assessment cannot be run in status: ...\<close>
  \<^item> \<open>NoValidFields\<close>: \<^verbatim>\<open>No valid fields to update\<close>
  \<^item> \<open>FindingNotFound\<close>: \<^verbatim>\<open>Finding not found: ...\<close>
  \<^item> \<open>TypeError\<close>: reading \<^verbatim>\<open>rows[0]\<close> of an empty result

  The errors of the store, which the services pass on as they are:
  \<^item> \<open>StorageError\<close>: the store does not execute the statement (no connection, a timeout)
  \<^item> \<open>SyntaxError\<close>: the store rejects the text of the statement (42601)
  \<^item> \<open>DataError\<close>: a bound value is not of the type of its column (22P02, 22001, 22021)
  \<^item> \<open>ConstraintViolation\<close>: a row violates \<^verbatim>\<open>NOT NULL\<close>, \<^verbatim>\<open>UNIQUE\<close> or a \<^verbatim>\<open>CHECK\<close> (23502,
    23505, 23514)
\<close>

datatype error =
    ConfigNotFound
  | InvalidFeature
  | AssessmentNotFound
  | InvalidState AssessmentStatus
  | NoValidFields
  | FindingNotFound
  | TypeError
  | StorageError
  | SyntaxError
  | DataError
  | ConstraintViolation

definition and_then :: "'e + 'a \<Rightarrow> ('a \<Rightarrow> 'e + 'b) \<Rightarrow> 'e + 'b" where
  "and_then m f = (case m of Inl e \<Rightarrow> Inl e | Inr x \<Rightarrow> f x)"

text \<open>
  Storage failure: \<open>faults\<close> is the number of statements the store still executes before it
  fails, \<open>None\<close> when it never fails; a store that has failed executes no later statement.
  \<open>tick\<close> is called once for each statement sent. A connection that the pool cannot open
  is the budget \<open>Some 0\<close>.
\<close>

type_synonym faults = "nat option"

fun tick :: "faults \<Rightarrow> error + faults" where
  "tick None = Inr None"
| "tick (Some 0) = Inl StorageError"
| "tick (Some (Suc n)) = Inr (Some n)"

text \<open>
  The state of an open transaction: the tables as the transaction sees them, the remaining
  fault budget, the number of identifiers drawn, and the two settings
  \<^verbatim>\<open>app.current_user_id\<close> and \<^verbatim>\<open>app.change_reason\<close> that the audit trigger reads. An error
  inside a transaction carries the fault budget at the point where it was thrown, for the
  \<^verbatim>\<open>ROLLBACK\<close> that follows.
\<close>

record txn =
  tx_db :: database
  tx_faults :: faults
  tx_uuids :: nat
  tx_userId :: "string option"
  tx_changeReason :: "string option"

type_synonym 'a attempt = "(error \<times> faults) + 'a"

definition throw :: "error \<Rightarrow> txn \<Rightarrow> 'a attempt" where
  "throw err t = Inl (err, tx_faults t)"

definition stmt :: "txn \<Rightarrow> txn attempt" where
  "stmt t = (case tick (tx_faults t) of
               Inl err \<Rightarrow> throw err t
             | Inr f \<Rightarrow> Inr (t\<lparr>tx_faults := f\<rparr>))"

text \<open>
  \<^verbatim>\<open>try { await client.query('BEGIN'); const result = await callback(client);
  await client.query('COMMIT'); return result; }
  catch (error) { await client.query('ROLLBACK'); throw error; }\<close>: on any error the
  tables are those before the call. \<^verbatim>\<open>ROLLBACK\<close> is a statement like the others: when the
  store does not execute it, its error is thrown in place of the one caught.
\<close>

definition transaction ::
  "(txn \<Rightarrow> ('a \<times> txn) attempt) \<Rightarrow> faults \<Rightarrow> database \<Rightarrow> (error + 'a) \<times> database" where
  "transaction callback f db =
     (case and_then (stmt \<lparr>tx_db = db, tx_faults = f, tx_uuids = 0,
                           tx_userId = None, tx_changeReason = None\<rparr>)
             (\<lambda>t. and_then (callback t)
             (\<lambda>(result, t). and_then (stmt t)
             (\<lambda>t. Inr (result, t)))) of
        Inl (err, f') \<Rightarrow>
          (case tick f' of
             Inl rollback_error \<Rightarrow> (Inl rollback_error, db)
           | Inr _ \<Rightarrow> (Inl err, db))
      | Inr (result, t) \<Rightarrow> (Inr result, tx_db t))"

definition fresh_uuid :: "env \<Rightarrow> txn \<Rightarrow> uuid \<times> txn" where
  "fresh_uuid e t = (env_uuid e (tx_uuids t), t\<lparr>tx_uuids := Suc (tx_uuids t)\<rparr>)"

section \<open>Compliance toggle service\<close>

text \<open>\<^verbatim>\<open>SELECT * FROM compliance_config WHERE tenant_id = $1\<close>\<close>

definition select_config :: "string \<Rightarrow> database \<Rightarrow> ComplianceConfig list" where
  "select_config tenantId db = filter (\<lambda>c. cfg_tenantId c = tenantId) (db_configs db)"

text \<open>
  \<^verbatim>\<open>getConfig\<close> and \<^verbatim>\<open>createDefaultConfig\<close> run on the pool, outside a transaction: one
  statement each. A created configuration gets no audit row. The insert binds the tenant to
  \<^verbatim>\<open>tenant_id VARCHAR(255)\<close>, under \<^verbatim>\<open>CONSTRAINT uq_compliance_config_tenant UNIQUE
  (tenant_id)\<close>.
\<close>

definition createDefaultConfig ::
  "string \<Rightarrow> env \<Rightarrow> faults \<Rightarrow> database \<Rightarrow> (error + ComplianceConfig) \<times> database" where
  "createDefaultConfig tenantId e f db =
     (case tick f of
        Inl err \<Rightarrow> (Inl err, db)
      | Inr f' \<Rightarrow>
          (case bind_varchar 255 tenantId of
             None \<Rightarrow> (Inl DataError, db)
           | Some tenant \<Rightarrow>
               if select_config tenant db \<noteq> [] then (Inl ConstraintViolation, db)
               else
                 let config = \<lparr>cfg_id = env_uuid e 0, cfg_tenantId = tenant,
                               cfg_masterEnabled = True,
                               cfg_moduleConfig = DEFAULT_MODULE_CONFIG,
                               cfg_createdAt = env_now e, cfg_updatedAt = env_now e\<rparr>
                 in (Inr config, db\<lparr>db_configs := db_configs db @ [config]\<rparr>)))"

definition getConfig ::
  "string \<Rightarrow> env \<Rightarrow> faults \<Rightarrow> database \<Rightarrow> (error + ComplianceConfig) \<times> database" where
  "getConfig tenantId e f db =
     (case tick f of
        Inl err \<Rightarrow> (Inl err, db)
      | Inr f' \<Rightarrow>
          if \<not> text_ok tenantId then (Inl DataError, db)
          else (case select_config tenantId db of
                  [] \<Rightarrow> createDefaultConfig tenantId e f' db
                | row # _ \<Rightarrow> (Inr row, db)))"

text \<open>
  \<^verbatim>\<open>if (!config.masterEnabled) return false;
  const moduleConfig = config.moduleConfig[module];
  if (!moduleConfig.enabled) return false;
  if (!feature) return true;
  const featureValue = (moduleConfig as Record<string, boolean>)[feature];
  return featureValue === true;\<close>
  The argument \<^verbatim>\<open>feature?: string\<close> is \<open>None\<close> when it is left out; \<^verbatim>\<open>!feature\<close> holds
  for a missing argument and for the empty string.
\<close>

definition falsy :: "string option \<Rightarrow> bool" where
  "falsy feature \<longleftrightarrow> (case feature of None \<Rightarrow> True | Some name \<Rightarrow> name = [])"

definition isEnabled ::
  "string \<Rightarrow> ModuleName \<Rightarrow> string option \<Rightarrow> env \<Rightarrow> faults \<Rightarrow> database
     \<Rightarrow> (error + bool) \<times> database" where
  "isEnabled tenantId moduleName feature e f db =
     (case getConfig tenantId e f db of
        (Inl err, db') \<Rightarrow> (Inl err, db')
      | (Inr config, db') \<Rightarrow>
          (Inr (if \<not> cfg_masterEnabled config then False
                else let moduleConfig = module_of (cfg_moduleConfig config) moduleName
                     in if \<not> enabled moduleConfig then False
                        else if falsy feature then True
                        else case feature of
                               None \<Rightarrow> True
                             | Some name \<Rightarrow> get_property moduleConfig name = Boolean True),
           db'))"

text \<open>
  \<^verbatim>\<open>await client.query(`SET LOCAL app.current_user_id = $1`, [userId])\<close> and
  \<^verbatim>\<open>await client.query(`SET LOCAL app.change_reason = $1`, [request.reason])\<close>. \<^verbatim>\<open>SET\<close> is
  a utility statement, and the store accepts a bind parameter in no utility statement: it
  rejects the text at \<^verbatim>\<open>$1\<close> (42601), whatever the value bound. The statement sets nothing.
\<close>

definition set_local_user :: "string \<Rightarrow> txn \<Rightarrow> txn attempt" where
  "set_local_user u t = and_then (stmt t) (throw SyntaxError)"

definition set_local_reason :: "string \<Rightarrow> txn \<Rightarrow> txn attempt" where
  "set_local_reason r t = and_then (stmt t) (throw SyntaxError)"

definition insert_audit :: "ComplianceConfigAudit \<Rightarrow> txn \<Rightarrow> txn" where
  "insert_audit a t = t\<lparr>tx_db := (tx_db t)\<lparr>db_audits := db_audits (tx_db t) @ [a]\<rparr>\<rparr>"

text \<open>
  The schema's trigger \<^verbatim>\<open>audit_compliance_config_changes\<close>, \<^verbatim>\<open>AFTER UPDATE ON
  compliance_config FOR EACH ROW\<close>, runs \<^verbatim>\<open>log_compliance_toggle_change()\<close>: one audit row
  when \<^verbatim>\<open>master_enabled\<close> has changed and one when \<^verbatim>\<open>module_config\<close> has changed. It reads
  \<^verbatim>\<open>changed_by\<close> and \<^verbatim>\<open>change_reason\<close> from the two settings; both columns are
  \<^verbatim>\<open>NOT NULL\<close>, so an unset setting fails the insert, and \<^verbatim>\<open>changed_by\<close> is
  \<^verbatim>\<open>VARCHAR(255)\<close>.
\<close>

definition trigger_insert ::
  "env \<Rightarrow> ComplianceConfig \<Rightarrow> AuditAction \<Rightarrow> StateSnapshot \<Rightarrow> StateSnapshot
     \<Rightarrow> string option \<Rightarrow> string option \<Rightarrow> bool option \<Rightarrow> bool option \<Rightarrow> txn \<Rightarrow> txn attempt" where
  "trigger_insert e new act previous_state new_state module_affected feature_affected
       previous_value new_value t =
     (case (tx_userId t, tx_changeReason t) of
        (Some u, Some r) \<Rightarrow>
          (case varchar 255 u of
             None \<Rightarrow> throw DataError t
           | Some changedBy \<Rightarrow>
               (let (i, t') = fresh_uuid e t
                in Inr (insert_audit
                     \<lparr>aud_id = i, aud_configId = cfg_id new, aud_tenantId = cfg_tenantId new,
                      aud_action = act, aud_changedBy = changedBy, aud_changeReason = r,
                      aud_previousState = Some previous_state, aud_newState = new_state,
                      aud_moduleAffected = module_affected,
                      aud_featureAffected = feature_affected,
                      aud_previousValue = previous_value, aud_newValue = new_value,
                      aud_ipAddress = None, aud_userAgent = None, aud_sessionId = None,
                      aud_createdAt = env_now e\<rparr> t')))
      | _ \<Rightarrow> throw ConstraintViolation t)"

definition log_compliance_toggle_change ::
  "env \<Rightarrow> ComplianceConfig \<Rightarrow> ComplianceConfig \<Rightarrow> txn \<Rightarrow> txn attempt" where
  "log_compliance_toggle_change e old new t =
     and_then
       (if cfg_masterEnabled old \<noteq> cfg_masterEnabled new
        then trigger_insert e new TOGGLE_MASTER (RowState old) (RowState new)
               (Some ''master'') (Some ''enabled'')
               (Some (cfg_masterEnabled old)) (Some (cfg_masterEnabled new)) t
        else Inr t)
       (\<lambda>t. if cfg_moduleConfig old \<noteq> cfg_moduleConfig new
            then trigger_insert e new TOGGLE_MODULE
                   (ModuleState (cfg_moduleConfig old)) (ModuleState (cfg_moduleConfig new))
                   None None None None t
            else Inr t)"

fun fire_config_triggers ::
  "env \<Rightarrow> (ComplianceConfig \<Rightarrow> ComplianceConfig) \<Rightarrow> ComplianceConfig list \<Rightarrow> txn \<Rightarrow> txn attempt" where
  "fire_config_triggers e upd [] t = Inr t"
| "fire_config_triggers e upd (old # olds) t =
     and_then (log_compliance_toggle_change e old (upd old) t) (fire_config_triggers e upd olds)"

text \<open>
  \<^verbatim>\<open>UPDATE compliance_config SET ..., updated_at = NOW() WHERE tenant_id = $2 RETURNING *\<close>:
  the rows of the tenant are rewritten, the trigger fires for each, and the new rows come back.
\<close>

definition update_config ::
  "env \<Rightarrow> string \<Rightarrow> (ComplianceConfig \<Rightarrow> ComplianceConfig) \<Rightarrow> txn
     \<Rightarrow> (ComplianceConfig list \<times> txn) attempt" where
  "update_config e tenantId upd t =
     and_then (stmt t) (\<lambda>t.
       let olds = select_config tenantId (tx_db t);
           t' = t\<lparr>tx_db := (tx_db t)\<lparr>db_configs :=
                  map (\<lambda>c. if cfg_tenantId c = tenantId then upd c else c) (db_configs (tx_db t))\<rparr>\<rparr>
       in and_then (fire_config_triggers e upd olds t') (\<lambda>t. Inr (map upd olds, t)))"

text \<open>
  \<^verbatim>\<open>INSERT INTO compliance_config (id, tenant_id, master_enabled, module_config) VALUES
  ($1, $2, $3, $4) RETURNING *\<close> inside \<^verbatim>\<open>toggleMaster\<close>: the row that comes back carries
  the tenant as the column stores it.
\<close>

definition insert_config :: "ComplianceConfig \<Rightarrow> txn \<Rightarrow> (ComplianceConfig \<times> txn) attempt" where
  "insert_config c t =
     and_then (stmt t) (\<lambda>t.
       case bind_varchar 255 (cfg_tenantId c) of
         None \<Rightarrow> throw DataError t
       | Some tenant \<Rightarrow>
           if select_config tenant (tx_db t) \<noteq> [] then throw ConstraintViolation t
           else Inr (c\<lparr>cfg_tenantId := tenant\<rparr>,
                     t\<lparr>tx_db := (tx_db t)\<lparr>db_configs :=
                          db_configs (tx_db t) @ [c\<lparr>cfg_tenantId := tenant\<rparr>]\<rparr>\<rparr>))"

text \<open>
  The argument \<^verbatim>\<open>data\<close> of \<^verbatim>\<open>logConfigChange\<close>. \<^verbatim>\<open>previousValue\<close> is whatever the caller
  read: a boolean, \<^verbatim>\<open>undefined\<close> (stored as \<^verbatim>\<open>NULL\<close>), or a value that the boolean column
  \<^verbatim>\<open>previous_value\<close> rejects. The insert binds \<^verbatim>\<open>tenant_id VARCHAR(255)\<close>,
  \<^verbatim>\<open>changed_by VARCHAR(255)\<close>, \<^verbatim>\<open>change_reason TEXT\<close>, \<^verbatim>\<open>module_affected VARCHAR(50)\<close>,
  \<^verbatim>\<open>feature_affected VARCHAR(100)\<close>, \<^verbatim>\<open>user_agent TEXT\<close> and \<^verbatim>\<open>session_id
  VARCHAR(255)\<close>; the address bound to \<^verbatim>\<open>ip_address INET\<close> is \<^verbatim>\<open>request.ip\<close>, which the
  server has read from the socket.
\<close>

record ConfigChange =
  chg_configId :: uuid
  chg_tenantId :: string
  chg_action :: AuditAction
  chg_changedBy :: string
  chg_changeReason :: string
  chg_previousState :: "StateSnapshot option"
  chg_newState :: StateSnapshot
  chg_moduleAffected :: "string option"
  chg_featureAffected :: "string option"
  chg_previousValue :: PropertyValue
  chg_newValue :: "bool option"
  chg_ipAddress :: "string option"
  chg_userAgent :: "string option"
  chg_sessionId :: "string option"

definition logConfigChange :: "env \<Rightarrow> ConfigChange \<Rightarrow> txn \<Rightarrow> txn attempt" where
  "logConfigChange e data t =
     (let (i, t) = fresh_uuid e t
      in and_then (stmt t) (\<lambda>t.
           case (bind_varchar 255 (chg_tenantId data), bind_varchar 255 (chg_changedBy data),
                 bind_text (chg_changeReason data),
                 bind_opt (bind_varchar 50) (chg_moduleAffected data),
                 bind_opt (bind_varchar 100) (chg_featureAffected data),
                 bind_opt bind_text (chg_userAgent data),
                 bind_opt (bind_varchar 255) (chg_sessionId data)) of
             (Some tenant, Some changedBy, Some changeReason, Some moduleAffected,
              Some featureAffected, Some userAgent, Some sessionId) \<Rightarrow>
               (case chg_previousValue data of
                  NotBoolean \<Rightarrow> throw DataError t
                | v \<Rightarrow>
                    Inr (insert_audit
                      \<lparr>aud_id = i, aud_configId = chg_configId data, aud_tenantId = tenant,
                       aud_action = chg_action data, aud_changedBy = changedBy,
                       aud_changeReason = changeReason,
                       aud_previousState = chg_previousState data,
                       aud_newState = chg_newState data,
                       aud_moduleAffected = moduleAffected,
                       aud_featureAffected = featureAffected,
                       aud_previousValue = (case v of Boolean b \<Rightarrow> Some b | _ \<Rightarrow> None),
                       aud_newValue = chg_newValue data,
                       aud_ipAddress = chg_ipAddress data, aud_userAgent = userAgent,
                       aud_sessionId = sessionId, aud_createdAt = env_now e\<rparr> t))
           | _ \<Rightarrow> throw DataError t))"

definition toggleMaster ::
  "ComplianceServiceContext \<Rightarrow> ToggleMasterRequest \<Rightarrow> env \<Rightarrow> faults \<Rightarrow> database
     \<Rightarrow> (error + ComplianceConfig) \<times> database" where
  "toggleMaster ctx request e =
     transaction (\<lambda>t.
       and_then (set_local_user (ctx_userId ctx) t) (\<lambda>t.
       and_then (set_local_reason (tm_reason request) t) (\<lambda>t.
       and_then (stmt t) (\<lambda>t.
       if \<not> text_ok (ctx_tenantId ctx) then throw DataError t else
       case select_config (ctx_tenantId ctx) (tx_db t) of
         [] \<Rightarrow>
           (let (i, t) = fresh_uuid e t
            in and_then (insert_config
                 \<lparr>cfg_id = i, cfg_tenantId = ctx_tenantId ctx,
                  cfg_masterEnabled = tm_enabled request,
                  cfg_moduleConfig = DEFAULT_MODULE_CONFIG,
                  cfg_createdAt = env_now e, cfg_updatedAt = env_now e\<rparr> t) (\<lambda>(config, t).
               and_then (logConfigChange e
                 \<lparr>chg_configId = cfg_id config, chg_tenantId = ctx_tenantId ctx,
                  chg_action = CREATE, chg_changedBy = ctx_userId ctx,
                  chg_changeReason = tm_reason request,
                  chg_previousState = None,
                  chg_newState = CreatedState (tm_enabled request) DEFAULT_MODULE_CONFIG,
                  chg_moduleAffected = Some ''master'', chg_featureAffected = Some ''enabled'',
                  chg_previousValue = Undefined, chg_newValue = Some (tm_enabled request),
                  chg_ipAddress = ctx_ipAddress ctx, chg_userAgent = ctx_userAgent ctx,
                  chg_sessionId = ctx_sessionId ctx\<rparr> t) (\<lambda>t.
               Inr (config, t))))
       | row # _ \<Rightarrow>
           (let previousConfig = row
            in and_then (update_config e (ctx_tenantId ctx)
                 (\<lambda>c. c\<lparr>cfg_masterEnabled := tm_enabled request, cfg_updatedAt := env_now e\<rparr>) t)
               (\<lambda>(rows, t).
                  case rows of
                    [] \<Rightarrow> throw TypeError t
                  | config # _ \<Rightarrow>
                      and_then (logConfigChange e
                        \<lparr>chg_configId = cfg_id config, chg_tenantId = ctx_tenantId ctx,
                         chg_action = TOGGLE_MASTER, chg_changedBy = ctx_userId ctx,
                         chg_changeReason = tm_reason request,
                         chg_previousState = Some (MasterState (cfg_masterEnabled previousConfig)),
                         chg_newState = MasterState (tm_enabled request),
                         chg_moduleAffected = Some ''master'',
                         chg_featureAffected = Some ''enabled'',
                         chg_previousValue = Boolean (cfg_masterEnabled previousConfig),
                         chg_newValue = Some (tm_enabled request),
                         chg_ipAddress = ctx_ipAddress ctx, chg_userAgent = ctx_userAgent ctx,
                         chg_sessionId = ctx_sessionId ctx\<rparr> t) (\<lambda>t.
                      Inr (config, t))))))))"

text \<open>
  In \<^verbatim>\<open>toggleModule\<close> the copy \<^verbatim>\<open>{ ...previousConfig.moduleConfig }\<close> is shallow: the module
  objects are shared with \<^verbatim>\<open>previousConfig\<close>, so the assignment to the module changes
  \<^verbatim>\<open>previousConfig.moduleConfig\<close> as well. What the code reads from \<^verbatim>\<open>previousConfig\<close>
  after the assignment (\<^verbatim>\<open>previousValue\<close>, \<^verbatim>\<open>previousState\<close>) is therefore read from the
  changed module map. \<^verbatim>\<open>feature ?? 'enabled'\<close> replaces only a missing feature.
\<close>

definition toggleModule ::
  "ComplianceServiceContext \<Rightarrow> ToggleModuleRequest \<Rightarrow> env \<Rightarrow> faults \<Rightarrow> database
     \<Rightarrow> (error + ComplianceConfig) \<times> database" where
  "toggleModule ctx request e =
     transaction (\<lambda>t.
       and_then (set_local_user (ctx_userId ctx) t) (\<lambda>t.
       and_then (set_local_reason (tg_reason request) t) (\<lambda>t.
       and_then (stmt t) (\<lambda>t.
       if \<not> text_ok (ctx_tenantId ctx) then throw DataError t else
       case select_config (ctx_tenantId ctx) (tx_db t) of
         [] \<Rightarrow> throw ConfigNotFound t
       | previousConfig # _ \<Rightarrow>
           (let moduleConfig = module_of (cfg_moduleConfig previousConfig) (tg_module request);
                feature = (case tg_feature request of None \<Rightarrow> [] | Some name \<Rightarrow> name)
            in if \<not> falsy (tg_feature request) \<and> \<not> has_property feature moduleConfig
               then throw InvalidFeature t
               else
                 (let changed = (if \<not> falsy (tg_feature request)
                                 then set_property feature (tg_enabled request) moduleConfig
                                 else moduleConfig\<lparr>enabled := tg_enabled request\<rparr>);
                      newModuleConfig =
                        module_update (tg_module request) changed (cfg_moduleConfig previousConfig)
                  in and_then (update_config e (ctx_tenantId ctx)
                       (\<lambda>c. c\<lparr>cfg_moduleConfig := newModuleConfig, cfg_updatedAt := env_now e\<rparr>) t)
                     (\<lambda>(rows, t).
                        case rows of
                          [] \<Rightarrow> throw TypeError t
                        | config # _ \<Rightarrow>
                            (let previousValue =
                                   (if \<not> falsy (tg_feature request)
                                    then get_property changed feature
                                    else Boolean (enabled changed))
                             in and_then (logConfigChange e
                                  \<lparr>chg_configId = cfg_id config, chg_tenantId = ctx_tenantId ctx,
                                   chg_action = (if \<not> falsy (tg_feature request)
                                                 then TOGGLE_FEATURE else TOGGLE_MODULE),
                                   chg_changedBy = ctx_userId ctx,
                                   chg_changeReason = tg_reason request,
                                   chg_previousState = Some (ModuleState newModuleConfig),
                                   chg_newState = ModuleState newModuleConfig,
                                   chg_moduleAffected = Some (module_key (tg_module request)),
                                   chg_featureAffected =
                                     Some (case tg_feature request of
                                             None \<Rightarrow> ''enabled'' | Some name \<Rightarrow> name),
                                   chg_previousValue = previousValue,
                                   chg_newValue = Some (tg_enabled request),
                                   chg_ipAddress = ctx_ipAddress ctx,
                                   chg_userAgent = ctx_userAgent ctx,
                                   chg_sessionId = ctx_sessionId ctx\<rparr> t) (\<lambda>t.
                                Inr (config, t))))))))))"

section \<open>Assessment service\<close>

text \<open>
  \<^verbatim>\<open>SELECT * FROM compliance_assessments WHERE id = $1 AND tenant_id = $2 FOR UPDATE\<close>, with
  the text bound to \<^verbatim>\<open>id UUID\<close> already read.
\<close>

definition select_assessment :: "uuid \<Rightarrow> string \<Rightarrow> database \<Rightarrow> ComplianceAssessment list" where
  "select_assessment assessmentId tenantId db =
     filter (\<lambda>a. asm_id a = assessmentId \<and> asm_tenantId a = tenantId) (db_assessments db)"

text \<open>\<^verbatim>\<open>UPDATE compliance_assessments SET ... WHERE id = $1 RETURNING *\<close>\<close>

definition update_assessment ::
  "uuid \<Rightarrow> (ComplianceAssessment \<Rightarrow> ComplianceAssessment) \<Rightarrow> txn
     \<Rightarrow> (ComplianceAssessment list \<times> txn) attempt" where
  "update_assessment assessmentId upd t =
     and_then (stmt t) (\<lambda>t.
       Inr (map upd (filter (\<lambda>a. asm_id a = assessmentId) (db_assessments (tx_db t))),
            t\<lparr>tx_db := (tx_db t)\<lparr>db_assessments :=
                 map (\<lambda>a. if asm_id a = assessmentId then upd a else a)
                     (db_assessments (tx_db t))\<rparr>\<rparr>))"

text \<open>
  The controls of a run: \<^verbatim>\<open>WHERE framework_id = $1\<close>, then \<^verbatim>\<open>AND domain = ANY($2)\<close> when
  the scope is not empty (a control without a domain never matches), then
  \<^verbatim>\<open>AND id != ALL($n)\<close> when controls are excluded, \<^verbatim>\<open>ORDER BY implementation_priority
  DESC\<close>. The store may return controls of equal priority in any order; the model keeps the
  order of the table among them.
\<close>

definition applicable_controls :: "ComplianceAssessment \<Rightarrow> database \<Rightarrow> ControlRow list" where
  "applicable_controls assessment db =
     sort_key (\<lambda>c. - ctl_implementationPriority c)
       (filter (\<lambda>c. ctl_frameworkId c = asm_frameworkId assessment
                   \<and> (asm_scope assessment = []
                        \<or> (case ctl_domain c of
                              None \<Rightarrow> False
                            | Some d \<Rightarrow> d \<in> set (asm_scope assessment)))
                   \<and> (asm_excludedControls assessment = []
                        \<or> ctl_id c \<notin> set (asm_excludedControls assessment)))
          (db_controls db))"

text \<open>The local counters of \<^verbatim>\<open>runAssessment\<close>.\<close>

record Counters =
  n_compliant :: nat
  n_nonCompliant :: nat
  n_partial :: nat
  n_notApplicable :: nat
  n_critical :: nat
  n_major :: nat
  n_minor :: nat
  n_observations :: nat

definition no_counts :: Counters where
  "no_counts = \<lparr>n_compliant = 0, n_nonCompliant = 0, n_partial = 0, n_notApplicable = 0,
                 n_critical = 0, n_major = 0, n_minor = 0, n_observations = 0\<rparr>"

text \<open>
  The body of the loop up to the insert: status, severity, \<^verbatim>\<open>aiAssessment\<close> and
  \<^verbatim>\<open>aiConfidence\<close> of one control, and the counters after it. \<open>random\<close> is the value of
  \<^verbatim>\<open>Math.random()\<close>; the literals \<^verbatim>\<open>0.6\<close> and \<^verbatim>\<open>0.9\<close> are the doubles nearest to them.
\<close>

definition assess_control ::
  "RunAssessmentRequest \<Rightarrow> env \<Rightarrow> rat \<Rightarrow> ControlRow \<Rightarrow> Counters
     \<Rightarrow> (FindingStatus \<times> FindingSeverity option \<times> string option \<times> rat) \<times> Counters" where
  "assess_control options e random control cs =
     (if run_useAI options \<and> env_aiEnabled e then
        (let priority = ctl_implementationPriority control;
             (status, severity, cs') =
               (if random < fl (6/10) then
                  (compliant, None, cs\<lparr>n_compliant := n_compliant cs + 1\<rparr>)
                else if random < 75/100 then
                  (partial, Some minor,
                   cs\<lparr>n_partial := n_partial cs + 1, n_minor := n_minor cs + 1\<rparr>)
                else if random < fl (9/10) then
                  (if priority > 80
                   then (non_compliant, Some major,
                         cs\<lparr>n_nonCompliant := n_nonCompliant cs + 1, n_major := n_major cs + 1\<rparr>)
                   else (non_compliant, Some minor,
                         cs\<lparr>n_nonCompliant := n_nonCompliant cs + 1, n_minor := n_minor cs + 1\<rparr>))
                else
                  (not_applicable, None, cs\<lparr>n_notApplicable := n_notApplicable cs + 1\<rparr>));
             aiAssessment = ''AI-assisted evaluation of '' @ ctl_title control @ ''. ''
               @ (if status = compliant
                  then ''Control appears to be effectively implemented.''
                  else ''Gaps identified in control implementation. Remediation recommended.'')
         in ((status, severity, Some aiAssessment, 75/100), cs'))
      else ((not_assessed, None, None, 0), cs))"

text \<open>
  \<^verbatim>\<open>INSERT INTO control_findings (...) VALUES (...)\<close>: the columns not listed take their
  defaults (\<^verbatim>\<open>human_verified = false\<close>, no verifier, the clock for both timestamps). The
  statement binds the tenant of the caller to \<^verbatim>\<open>tenant_id VARCHAR(255)\<close> and the text
  \<^verbatim>\<open>`${control['title']} - ${status}`\<close>, built from a text of the store, to
  \<^verbatim>\<open>finding_title VARCHAR(500)\<close>, where the title of a control is itself a
  \<^verbatim>\<open>VARCHAR(500)\<close>. The descriptions are of type \<^verbatim>\<open>TEXT\<close>, and the identifier of the
  control comes from a column of the type it goes to.
\<close>

definition insert_finding ::
  "ComplianceServiceContext \<Rightarrow> uuid \<Rightarrow> RunAssessmentRequest \<Rightarrow> env \<Rightarrow> uuid \<Rightarrow> ControlRow
     \<Rightarrow> FindingStatus \<times> FindingSeverity option \<times> string option \<times> rat \<Rightarrow> txn \<Rightarrow> txn attempt" where
  "insert_finding ctx assessmentId options e findingId control result t =
     (case result of (status, severity, aiAssessment, aiConfidence) \<Rightarrow>
        and_then (stmt t) (\<lambda>t.
          case (bind_varchar 255 (ctx_tenantId ctx),
                bind_opt (varchar 500)
                  (if status \<noteq> compliant
                   then Some (ctl_title control @ '' - '' @ status_text status) else None)) of
            (Some tenant, Some findingTitle) \<Rightarrow>
              Inr (t\<lparr>tx_db := (tx_db t)\<lparr>db_findings := db_findings (tx_db t) @
                [\<lparr>fnd_id = findingId,
                  fnd_assessmentId = assessmentId,
                  fnd_controlId = ctl_id control,
                  fnd_tenantId = tenant,
                  fnd_status = status,
                  fnd_severity = severity,
                  fnd_findingTitle = findingTitle,
                  fnd_findingDescription =
                    (if status \<noteq> compliant
                     then Some (''Review and remediate '' @ ctl_controlNumber control) else None),
                  fnd_aiAssessment = aiAssessment,
                  fnd_aiConfidence = (if run_useAI options then Some aiConfidence else None),
                  fnd_remediationRequired = (status = non_compliant \<or> status = partial),
                  fnd_remediationStatus =
                    (if status = non_compliant \<or> status = partial
                     then rem_pending else not_required),
                  fnd_remediationPlan = None,
                  fnd_remediationOwner = None,
                  fnd_remediationDueDate = None,
                  fnd_humanVerified = False,
                  fnd_verifiedBy = None,
                  fnd_verifiedAt = None,
                  fnd_verificationNotes = None,
                  fnd_createdAt = env_now e,
                  fnd_updatedAt = env_now e\<rparr>]\<rparr>\<rparr>)
          | _ \<Rightarrow> throw DataError t))"

text \<open>
  \<^verbatim>\<open>for (const control of controls) { const findingId = uuidv4(); ... }\<close>: \<open>i\<close> counts the
  controls done, which is also the number of draws of \<^verbatim>\<open>Math.random()\<close> so far when the
  branch with AI is taken.
\<close>

fun assess_controls ::
  "ComplianceServiceContext \<Rightarrow> uuid \<Rightarrow> RunAssessmentRequest \<Rightarrow> env \<Rightarrow> nat \<Rightarrow> ControlRow list
     \<Rightarrow> Counters \<Rightarrow> txn \<Rightarrow> (Counters \<times> txn) attempt" where
  "assess_controls ctx assessmentId options e i [] cs t = Inr (cs, t)"
| "assess_controls ctx assessmentId options e i (control # rest) cs t =
     (let (findingId, t) = fresh_uuid e t;
          (result, cs') = assess_control options e (env_random e i) control cs
      in and_then (insert_finding ctx assessmentId options e findingId control result t)
           (assess_controls ctx assessmentId options e (Suc i) rest cs'))"

text \<open>
  The two updates of the assessment row in a run. The first is
  \<^verbatim>\<open>SET status = 'in_progress', started_at = NOW(), updated_at = NOW()\<close>; the second sets
  the status \<^verbatim>\<open>completed\<close>, the completion time and the results, with
  \<^verbatim>\<open>total_controls_assessed = controls.length\<close>. The second binds
  \<^verbatim>\<open>options.useAI ? (options.aiModel ?? config.ai.model) : null\<close> to
  \<^verbatim>\<open>ai_model_used VARCHAR(100)\<close>, and the score to \<^verbatim>\<open>overall_score DECIMAL(5,2) CHECK
  (overall_score BETWEEN 0 AND 100)\<close>; the counters go to columns of type \<^verbatim>\<open>INTEGER\<close>,
  which hold any number of rows a table of controls can have.
\<close>

definition mark_in_progress :: "env \<Rightarrow> ComplianceAssessment \<Rightarrow> ComplianceAssessment" where
  "mark_in_progress e a =
     a\<lparr>asm_status := in_progress, asm_startedAt := Some (env_now e), asm_updatedAt := env_now e\<rparr>"

definition store_results ::
  "RunAssessmentRequest \<Rightarrow> env \<Rightarrow> int \<Rightarrow> RiskLevel \<Rightarrow> ControlRow list \<Rightarrow> Counters
     \<Rightarrow> string option \<Rightarrow> ComplianceAssessment \<Rightarrow> ComplianceAssessment" where
  "store_results options e score riskLevel controls cs aiModelUsed a =
     a\<lparr>asm_status := completed,
       asm_completedAt := Some (env_now e),
       asm_overallScore := Some score,
       asm_riskLevel := Some riskLevel,
       asm_totalControlsAssessed := length controls,
       asm_compliantControls := n_compliant cs,
       asm_nonCompliantControls := n_nonCompliant cs,
       asm_partialControls := n_partial cs,
       asm_notApplicableControls := n_notApplicable cs,
       asm_criticalFindings := n_critical cs,
       asm_majorFindings := n_major cs,
       asm_minorFindings := n_minor cs,
       asm_observations := n_observations cs,
       asm_aiModelUsed := aiModelUsed,
       asm_aiConfidence := (if run_useAI options then Some (75/100) else None),
       asm_updatedAt := env_now e\<rparr>"

definition complete_assessment ::
  "uuid \<Rightarrow> RunAssessmentRequest \<Rightarrow> env \<Rightarrow> int \<Rightarrow> RiskLevel \<Rightarrow> ControlRow list \<Rightarrow> Counters
     \<Rightarrow> txn \<Rightarrow> (ComplianceAssessment list \<times> txn) attempt" where
  "complete_assessment assessmentId options e score riskLevel controls cs t =
     (case bind_opt (bind_varchar 100)
             (if run_useAI options
              then Some (case run_aiModel options of None \<Rightarrow> env_aiModel e | Some m \<Rightarrow> m)
              else None) of
        None \<Rightarrow> and_then (stmt t) (throw DataError)
      | Some aiModelUsed \<Rightarrow>
          if score < 0 \<or> 100 < score then and_then (stmt t) (throw ConstraintViolation)
          else update_assessment assessmentId
                 (store_results options e score riskLevel controls cs aiModelUsed) t)"

definition runAssessment ::
  "ComplianceServiceContext \<Rightarrow> string \<Rightarrow> RunAssessmentRequest \<Rightarrow> env \<Rightarrow> faults \<Rightarrow> database
     \<Rightarrow> (error + ComplianceAssessment) \<times> database" where
  "runAssessment ctx assessmentId options e =
     transaction (\<lambda>t.
       and_then (stmt t) (\<lambda>t.
       case parse_uuid assessmentId of
         None \<Rightarrow> throw DataError t
       | Some aid \<Rightarrow>
       if \<not> text_ok (ctx_tenantId ctx) then throw DataError t else
       case select_assessment aid (ctx_tenantId ctx) (tx_db t) of
         [] \<Rightarrow> throw AssessmentNotFound t
       | assessment # _ \<Rightarrow>
           if asm_status assessment \<noteq> pending \<and> asm_status assessment \<noteq> failed
           then throw (InvalidState (asm_status assessment)) t
           else
             and_then (update_assessment aid (mark_in_progress e) t) (\<lambda>(_, t).
             and_then (stmt t) (\<lambda>t.
             let controls = applicable_controls assessment (tx_db t)
             in and_then (assess_controls ctx aid options e 0 controls no_counts t)
                  (\<lambda>(cs, t).
             let score = overallScore (n_compliant cs) (n_nonCompliant cs) (n_partial cs);
                 riskLevel = calculateRiskLevel score
             in and_then (complete_assessment aid options e score riskLevel controls cs t)
                  (\<lambda>(rows, t).
             case rows of
               [] \<Rightarrow> throw TypeError t
             | finalAssessment # _ \<Rightarrow> Inr (finalAssessment, t)))))))"

text \<open>
  \<^verbatim>\<open>updateFinding\<close>: one \<^verbatim>\<open>UPDATE control_findings SET ... WHERE id = $n AND tenant_id = $m
  RETURNING *\<close> on the pool. Each key of \<^verbatim>\<open>updates\<close> that is present sets its column; the
  verification columns are set under \<^verbatim>\<open>if (updates.status && updates.status !== 'not_assessed')\<close>.
  The statement binds \<^verbatim>\<open>findingId\<close> to \<^verbatim>\<open>id UUID\<close>, \<^verbatim>\<open>context.userId\<close> to
  \<^verbatim>\<open>verified_by UUID\<close> when it sets the verification columns, \<^verbatim>\<open>updates.findingTitle\<close> to
  \<^verbatim>\<open>finding_title VARCHAR(500)\<close>, \<^verbatim>\<open>updates.remediationOwner\<close> to
  \<^verbatim>\<open>remediation_owner VARCHAR(255)\<close>, and the description, the plan and the notes to
  columns of type \<^verbatim>\<open>TEXT\<close>; the store reads the bound values before it looks for the row.
\<close>

definition no_updates :: "FindingUpdates \<Rightarrow> bool" where
  "no_updates u \<longleftrightarrow>
     upd_status u = None \<and> upd_severity u = None \<and> upd_findingTitle u = None
     \<and> upd_findingDescription u = None \<and> upd_remediationPlan u = None
     \<and> upd_remediationOwner u = None \<and> upd_remediationDueDate u = None
     \<and> upd_remediationStatus u = None \<and> upd_verificationNotes u = None"

definition set_column :: "'a option \<Rightarrow> 'a \<Rightarrow> 'a" where
  "set_column new old = (case new of None \<Rightarrow> old | Some v \<Rightarrow> v)"

definition set_nullable :: "'a option \<Rightarrow> 'a option \<Rightarrow> 'a option" where
  "set_nullable new old = (case new of None \<Rightarrow> old | Some v \<Rightarrow> Some v)"

definition verifies :: "FindingUpdates \<Rightarrow> bool" where
  "verifies u \<longleftrightarrow> (case upd_status u of None \<Rightarrow> False | Some s \<Rightarrow> s \<noteq> not_assessed)"

text \<open>
  The \<^verbatim>\<open>SET\<close> clauses applied to a row, with the values as the store has read them:
  \<open>verifiedBy\<close> is the identifier read from \<^verbatim>\<open>context.userId\<close>.
\<close>

definition apply_updates ::
  "uuid option \<Rightarrow> FindingUpdates \<Rightarrow> env \<Rightarrow> ControlFinding \<Rightarrow> ControlFinding" where
  "apply_updates verifiedBy u e r =
     r\<lparr>fnd_status := set_column (upd_status u) (fnd_status r),
       fnd_severity := set_nullable (upd_severity u) (fnd_severity r),
       fnd_findingTitle := set_nullable (upd_findingTitle u) (fnd_findingTitle r),
       fnd_findingDescription := set_nullable (upd_findingDescription u) (fnd_findingDescription r),
       fnd_remediationPlan := set_nullable (upd_remediationPlan u) (fnd_remediationPlan r),
       fnd_remediationOwner := set_nullable (upd_remediationOwner u) (fnd_remediationOwner r),
       fnd_remediationDueDate := set_nullable (upd_remediationDueDate u) (fnd_remediationDueDate r),
       fnd_remediationStatus := set_column (upd_remediationStatus u) (fnd_remediationStatus r),
       fnd_verificationNotes := set_nullable (upd_verificationNotes u) (fnd_verificationNotes r),
       fnd_updatedAt := env_now e,
       fnd_humanVerified := (if verifies u then True else fnd_humanVerified r),
       fnd_verifiedBy := (if verifies u then verifiedBy else fnd_verifiedBy r),
       fnd_verifiedAt := (if verifies u then Some (env_now e) else fnd_verifiedAt r)\<rparr>"

definition updateFinding ::
  "ComplianceServiceContext \<Rightarrow> string \<Rightarrow> FindingUpdates \<Rightarrow> env \<Rightarrow> faults \<Rightarrow> database
     \<Rightarrow> (error + ControlFinding) \<times> database" where
  "updateFinding ctx findingId updates e f db =
     (if no_updates updates then (Inl NoValidFields, db)
      else case tick f of
             Inl err \<Rightarrow> (Inl err, db)
           | Inr f' \<Rightarrow>
               (case (parse_uuid findingId,
                      if verifies updates then map_option Some (parse_uuid (ctx_userId ctx))
                      else Some None,
                      bind_text (ctx_tenantId ctx),
                      bind_opt (bind_varchar 500) (upd_findingTitle updates),
                      bind_opt (bind_varchar 255) (upd_remediationOwner updates),
                      bind_opt bind_text (upd_findingDescription updates),
                      bind_opt bind_text (upd_remediationPlan updates),
                      bind_opt bind_text (upd_verificationNotes updates)) of
                  (Some fid, Some verifiedBy, Some tenant, Some findingTitle,
                   Some remediationOwner, Some findingDescription, Some remediationPlan,
                   Some verificationNotes) \<Rightarrow>
                    (let u = updates\<lparr>upd_findingTitle := findingTitle,
                                     upd_remediationOwner := remediationOwner\<rparr>;
                         hit = (\<lambda>r. fnd_id r = fid \<and> fnd_tenantId r = ctx_tenantId ctx)
                     in case filter hit (db_findings db) of
                          [] \<Rightarrow> (Inl FindingNotFound, db)
                        | row # _ \<Rightarrow>
                            (Inr (apply_updates verifiedBy u e row),
                             db\<lparr>db_findings :=
                                  map (\<lambda>r. if hit r then apply_updates verifiedBy u e r else r)
                                      (db_findings db)\<rparr>))
                | _ \<Rightarrow> (Inl DataError, db)))"

section \<open>Vocabulary of the claims and example data\<close>

text \<open>The store executes at least \<open>n\<close> more statements.\<close>

definition executes :: "nat \<Rightarrow> faults \<Rightarrow> bool" where
  "executes n f \<longleftrightarrow> (case f of None \<Rightarrow> True | Some k \<Rightarrow> n \<le> k)"

text \<open>A text fits a column of type \<^verbatim>\<open>VARCHAR(n)\<close> as it is.\<close>

definition fits :: "nat \<Rightarrow> string \<Rightarrow> bool" where
  "fits n s \<longleftrightarrow> length s \<le> n \<and> text_ok s"

text \<open>The texts of an update fit the columns they are bound to.\<close>

definition updates_fit :: "FindingUpdates \<Rightarrow> bool" where
  "updates_fit u \<longleftrightarrow>
     (case upd_findingTitle u of None \<Rightarrow> True | Some v \<Rightarrow> fits 500 v)
     \<and> (case upd_remediationOwner u of None \<Rightarrow> True | Some v \<Rightarrow> fits 255 v)
     \<and> (case upd_findingDescription u of None \<Rightarrow> True | Some v \<Rightarrow> text_ok v)
     \<and> (case upd_remediationPlan u of None \<Rightarrow> True | Some v \<Rightarrow> text_ok v)
     \<and> (case upd_verificationNotes u of None \<Rightarrow> True | Some v \<Rightarrow> text_ok v)"

definition count_status :: "FindingStatus \<Rightarrow> ControlFinding list \<Rightarrow> nat" where
  "count_status s rows = length (filter (\<lambda>r. fnd_status r = s) rows)"






definition audit_rows :: "string \<Rightarrow> database \<Rightarrow> ComplianceConfigAudit list" where
  "audit_rows tenant db = filter (\<lambda>a. aud_tenantId a = tenant) (db_audits db)"

text \<open>
  A tenant \<open>t1\<close> with one assessment of a framework that has one control, used to run the
  operations on concrete data. The user and the assessment are named by identifiers in the
  usual notation.
\<close>

definition ex_user_id :: string where
  "ex_user_id = ''0b000000-0000-4000-8000-0000000000b1''"

definition ex_assessment_id :: string where
  "ex_assessment_id = ''0a000000-0000-4000-8000-0000000000a1''"

definition ex_finding_id :: string where
  "ex_finding_id = ''0f000000-0000-4000-8000-0000000000f1''"

definition ex_ctx :: ComplianceServiceContext where
  "ex_ctx = \<lparr>ctx_tenantId = ''t1'', ctx_userId = ex_user_id, ctx_requestId = ''r1'',
             ctx_sessionId = None, ctx_ipAddress = None, ctx_userAgent = None\<rparr>"

definition ex_env :: "bool \<Rightarrow> env" where
  "ex_env ai = \<lparr>env_now = 7,
                env_uuid = (\<lambda>n. Uuid (''0e00000000004000800000000000000''
                                        @ [''0123456789abcdef'' ! (n mod 16)])),
                env_random = (\<lambda>n. 0), env_aiEnabled = ai, env_aiModel = ''model''\<rparr>"

definition ex_control :: ControlRow where
  "ex_control = \<lparr>ctl_id = ''c1'', ctl_frameworkId = ''iso27001'', ctl_controlNumber = ''A.5.1'',
                 ctl_domain = Some ''Organizational'', ctl_title = ''Policies'',
                 ctl_implementationPriority = 90\<rparr>"

definition ex_assessment :: "AssessmentStatus \<Rightarrow> ComplianceAssessment" where
  "ex_assessment st =
     \<lparr>asm_id = Uuid ''0a0000000000400080000000000000a1'', asm_tenantId = ''t1'',
      asm_frameworkId = ''iso27001'',
      asm_scope = [], asm_excludedControls = [], asm_status = st,
      asm_overallScore = None, asm_riskLevel = None,
      asm_totalControlsAssessed = 0, asm_compliantControls = 0, asm_nonCompliantControls = 0,
      asm_partialControls = 0, asm_notApplicableControls = 0, asm_criticalFindings = 0,
      asm_majorFindings = 0, asm_minorFindings = 0, asm_observations = 0,
      asm_aiModelUsed = None, asm_aiConfidence = None, asm_startedAt = None,
      asm_completedAt = None, asm_createdAt = 1, asm_updatedAt = 1\<rparr>"

definition ex_db :: "AssessmentStatus \<Rightarrow> database" where
  "ex_db st = \<lparr>db_configs = [], db_audits = [], db_controls = [ex_control],
               db_assessments = [ex_assessment st], db_findings = []\<rparr>"

definition ex_run :: "bool \<Rightarrow> RunAssessmentRequest" where
  "ex_run ai = \<lparr>run_useAI = ai, run_aiModel = None, run_includeRecommendations = None\<rparr>"

text \<open>
  A store with no row at all, a finding of the assessment that awaits review, a caller whose
  user id is the default \<^verbatim>\<open>system\<close> of the routes, and requests: a change of status or
  severity, a master switch turned off, and a module toggled through a feature name.
\<close>

definition ex_empty_db :: database where
  "ex_empty_db = \<lparr>db_configs = [], db_audits = [], db_controls = [], db_assessments = [],
                   db_findings = []\<rparr>"

definition ex_finding :: ControlFinding where
  "ex_finding =
     \<lparr>fnd_id = Uuid ''0f0000000000400080000000000000f1'',
      fnd_assessmentId = Uuid ''0a0000000000400080000000000000a1'',
      fnd_controlId = ''c1'', fnd_tenantId = ''t1'',
      fnd_status = non_compliant, fnd_severity = Some minor,
      fnd_findingTitle = Some ''Policies - non_compliant'',
      fnd_findingDescription = Some ''Review and remediate A.5.1'',
      fnd_aiAssessment = None, fnd_aiConfidence = None,
      fnd_remediationRequired = True, fnd_remediationStatus = rem_pending,
      fnd_remediationPlan = None, fnd_remediationOwner = None, fnd_remediationDueDate = None,
      fnd_humanVerified = False, fnd_verifiedBy = None, fnd_verifiedAt = None,
      fnd_verificationNotes = None, fnd_createdAt = 1, fnd_updatedAt = 1\<rparr>"

definition ex_findings_db :: database where
  "ex_findings_db = (ex_db completed)\<lparr>db_findings := [ex_finding]\<rparr>"

definition ex_system_ctx :: ComplianceServiceContext where
  "ex_system_ctx = ex_ctx\<lparr>ctx_userId := ''system''\<rparr>"

definition ex_updates :: "FindingStatus option \<Rightarrow> FindingSeverity option \<Rightarrow> FindingUpdates" where
  "ex_updates st sev =
     \<lparr>upd_status = st, upd_severity = sev, upd_findingTitle = None,
      upd_findingDescription = None, upd_remediationPlan = None, upd_remediationOwner = None,
      upd_remediationDueDate = None, upd_remediationStatus = None,
      upd_verificationNotes = None\<rparr>"


definition ex_toggle :: "ModuleName \<Rightarrow> bool \<Rightarrow> string option \<Rightarrow> ToggleModuleRequest" where
  "ex_toggle m b feature =
     \<lparr>tg_module = m, tg_enabled = b, tg_reason = ''quarterly review'', tg_feature = feature\<rparr>"

text \<open>
  The configuration of \<open>t1\<close> with the module defaults, and the stores that hold it with the
  master switch on and off.
\<close>

definition ex_config :: "bool \<Rightarrow> ComplianceConfig" where
  "ex_config master =
     \<lparr>cfg_id = Uuid ''0c0000000000400080000000000000c1'', cfg_tenantId = ''t1'',
      cfg_masterEnabled = master, cfg_moduleConfig = DEFAULT_MODULE_CONFIG,
      cfg_createdAt = 1, cfg_updatedAt = 1\<rparr>"

definition ex_config_db :: "bool \<Rightarrow> database" where
  "ex_config_db master = ex_empty_db\<lparr>db_configs := [ex_config master]\<rparr>"

text \<open>
  A framework of twelve controls and draws of \<^verbatim>\<open>Math.random()\<close> that make four of them
  compliant (\<open>0\<close>), one partial (\<open>0.625\<close>) and seven non-compliant (\<open>0.8125\<close>).
\<close>

definition ex_env12 :: env where
  "ex_env12 =
     (ex_env True)\<lparr>env_random := (\<lambda>i. if i < 4 then 0 else if i < 5 then 5/8 else 13/16)\<rparr>"

definition ex_db12 :: database where
  "ex_db12 = (ex_db pending)\<lparr>db_controls :=
     map (\<lambda>k. ex_control\<lparr>ctl_id := k\<rparr>)
       [''c01'', ''c02'', ''c03'', ''c04'', ''c05'', ''c06'',
        ''c07'', ''c08'', ''c09'', ''c10'', ''c11'', ''c12'']\<rparr>"

text \<open>
  A control whose title has four hundred and ninety characters, and the store of \<open>t1\<close> with
  that control in place of the short one.
\<close>

definition ex_long_control :: ControlRow where
  "ex_long_control = ex_control\<lparr>ctl_title := replicate 490 (CHR ''x'')\<rparr>"

definition ex_long_db :: database where
  "ex_long_db = (ex_db pending)\<lparr>db_controls := [ex_long_control]\<rparr>"

section \<open>Double rounding is monotone\<close>

lemma round_half_even_of_int: "round_half_even (of_int n) = n"
  by (simp add: round_half_even_def)

lemma round_half_even_ge_floor: "\<lfloor>x\<rfloor> \<le> round_half_even x"
  by (simp add: round_half_even_def Let_def)

lemma round_half_even_le_floor: "round_half_even x \<le> \<lfloor>x\<rfloor> + 1"
  by (simp add: round_half_even_def Let_def)

lemma round_half_even_mono:
  assumes "x \<le> y"
  shows "round_half_even x \<le> round_half_even y"
proof (cases "\<lfloor>x\<rfloor> = \<lfloor>y\<rfloor>")
  case True
  with assms show ?thesis
    by (auto simp: round_half_even_def Let_def)
next
  case False
  with assms have "\<lfloor>x\<rfloor> + 1 \<le> \<lfloor>y\<rfloor>"
    using floor_mono [of x y] by linarith
  with round_half_even_le_floor [of x] round_half_even_ge_floor [of y]
  show ?thesis by linarith
qed

lemma p2_diff: "(2::rat) powi m / 2 powi n = 2 powi (m - n)"
  by (simp add: power_int_diff)

lemma of_int_less_p2:
  assumes "0 < a"
  shows "(of_int a :: rat) < 2 powi (bitlen a)"
proof -
  have "0 \<le> bitlen a" by (rule bitlen_nonneg)
  have "a < 2 ^ nat (bitlen a)" using bitlen_bounds [OF assms] by simp
  then have "(of_int a :: rat) < of_int (2 ^ nat (bitlen a))" by (simp only: of_int_less_iff)
  then show ?thesis using \<open>0 \<le> bitlen a\<close> by (simp add: power_int_def)
qed

lemma p2_le_of_int:
  assumes "0 < a"
  shows "(2::rat) powi (bitlen a - 1) \<le> of_int a"
proof -
  have "0 < bitlen a"
    using assms bitlen_eq_zero_iff [of a] bitlen_nonneg [of a] by linarith
  have "2 ^ nat (bitlen a - 1) \<le> a" using bitlen_bounds [OF assms] by simp
  then have "(of_int (2 ^ nat (bitlen a - 1)) :: rat) \<le> of_int a" by (simp only: of_int_le_iff)
  then show ?thesis using \<open>0 < bitlen a\<close> by (simp add: power_int_def)
qed

lemma ilog2_bounds:
  assumes "0 < x"
  shows "2 powi (ilog2 x) \<le> x" and "x < 2 powi (ilog2 x + 1)"
proof -
  obtain a b where q: "quotient_of x = (a, b)" by (cases "quotient_of x")
  have b: "0 < b" using q quotient_of_denom_pos by blast
  have x: "x = of_int a / of_int b" using q by (rule quotient_of_div)
  have a: "0 < a" using assms b x by (simp add: zero_less_divide_iff)
  define e where "e = bitlen a - bitlen b"
  have hi: "x < 2 powi (e + 1)"
  proof -
    have "x < 2 powi (bitlen a) / of_int b"
      unfolding x using of_int_less_p2 [OF a] b by (simp add: divide_strict_right_mono)
    also have "\<dots> \<le> 2 powi (bitlen a) / 2 powi (bitlen b - 1)"
      using p2_le_of_int [OF b] by (intro divide_left_mono) (auto intro: mult_pos_pos simp: b)
    also have "\<dots> = 2 powi (bitlen a - (bitlen b - 1))"
      by (rule p2_diff)
    also have "bitlen a - (bitlen b - 1) = e + 1"
      by (simp add: e_def)
    finally show ?thesis .
  qed
  have lo: "2 powi (e - 1) \<le> x"
  proof -
    have "e - 1 = bitlen a - 1 - bitlen b"
      by (simp add: e_def)
    then have "(2::rat) powi (e - 1) = 2 powi (bitlen a - 1) / 2 powi (bitlen b)"
      by (simp only: p2_diff)
    also have "\<dots> \<le> of_int a / 2 powi (bitlen b)"
      using p2_le_of_int [OF a] by (simp add: divide_right_mono)
    also have "\<dots> \<le> of_int a / of_int b"
      using of_int_less_p2 [OF b] a b by (intro divide_left_mono) (auto intro: mult_pos_pos)
    finally show ?thesis by (simp add: x)
  qed
  have il: "ilog2 x = (if 2 powi e \<le> x then e else e - 1)"
    by (simp add: ilog2_def q e_def Let_def)
  show "2 powi (ilog2 x) \<le> x" using il lo by (simp split: if_splits)
  show "x < 2 powi (ilog2 x + 1)" using il hi by (auto split: if_splits simp: not_le)
qed

lemma p2_less_imp: "(2::rat) powi m < 2 powi n \<Longrightarrow> m < n"
proof (rule ccontr)
  assume a: "(2::rat) powi m < 2 powi n" and "\<not> m < n"
  then have "n \<le> m" by simp
  then have "(2::rat) powi n \<le> 2 powi m" by (rule power_int_increasing) simp
  with a show False by simp
qed

lemma ilog2_mono:
  assumes "0 < x" "x \<le> y"
  shows "ilog2 x \<le> ilog2 y"
proof -
  have "0 < y" using assms by simp
  have "(2::rat) powi (ilog2 x) \<le> x" using ilog2_bounds(1) [OF assms(1)] .
  also have "x \<le> y" by fact
  also have "y < 2 powi (ilog2 y + 1)" using ilog2_bounds(2) [OF \<open>0 < y\<close>] .
  finally have "(2::rat) powi (ilog2 x) < 2 powi (ilog2 y + 1)" .
  then have "ilog2 x < ilog2 y + 1" by (rule p2_less_imp)
  then show ?thesis by simp
qed

lemma fl_pos_eq:
  "0 < x \<Longrightarrow> fl x = of_int (round_half_even (x / 2 powi (ilog2 x - 52))) * 2 powi (ilog2 x - 52)"
  by (simp add: fl_def Let_def)

lemma fl_bounds:
  assumes "0 < x"
  shows "2 powi (ilog2 x) \<le> fl x" and "fl x \<le> 2 powi (ilog2 x + 1)"
proof -
  define u :: rat where "u = 2 powi (ilog2 x - 52)"
  define m where "m = round_half_even (x / u)"
  have u: "0 < u" by (simp add: u_def)
  have "(2::rat) powi (ilog2 x) / 2 powi 52 = u"
    unfolding u_def by (rule p2_diff)
  then have lo: "2 powi (ilog2 x) = 2 powi 52 * u"
    by (simp add: field_simps)
  have "(2::rat) powi (ilog2 x + 1) / 2 powi 53 = 2 powi (ilog2 x + 1 - 53)"
    by (rule p2_diff)
  also have "ilog2 x + 1 - 53 = ilog2 x - 52" by simp
  finally have hi: "2 powi (ilog2 x + 1) = 2 powi 53 * u"
    by (simp add: field_simps u_def)
  have "2 powi 52 * u \<le> x" using ilog2_bounds(1) [OF assms] by (simp only: lo)
  then have "2 powi 52 \<le> x / u" using u by (simp add: pos_le_divide_eq)
  then have "of_int (2 ^ 52) \<le> x / u" by simp
  from round_half_even_mono [OF this]
  have "2 ^ 52 \<le> m"
    by (simp only: round_half_even_of_int m_def)
  then have "(of_int (2 ^ 52) :: rat) \<le> of_int m" by (simp only: of_int_le_iff)
  then have m_lo: "(2::rat) powi 52 \<le> of_int m" by simp
  have "x \<le> 2 powi 53 * u" using ilog2_bounds(2) [OF assms] by (simp only: hi)
  then have "x / u \<le> 2 powi 53" using u by (simp add: pos_divide_le_eq)
  then have "x / u \<le> of_int (2 ^ 53)" by simp
  from round_half_even_mono [OF this]
  have "m \<le> 2 ^ 53"
    by (simp only: round_half_even_of_int m_def)
  then have "(of_int m :: rat) \<le> of_int (2 ^ 53)" by (simp only: of_int_le_iff)
  then have m_hi: "of_int m \<le> (2::rat) powi 53" by simp
  have f: "fl x = of_int m * u"
    using assms by (simp add: fl_pos_eq u_def m_def)
  have "2 powi 52 * u \<le> of_int m * u"
    using m_lo u by (simp add: mult_right_mono)
  then show "2 powi (ilog2 x) \<le> fl x" by (simp only: lo f)
  have "of_int m * u \<le> 2 powi 53 * u"
    using m_hi u by (simp add: mult_right_mono)
  then show "fl x \<le> 2 powi (ilog2 x + 1)" by (simp only: hi f)
qed

lemma fl_zero: "fl 0 = 0"
  by (simp add: fl_def)

lemma fl_nonneg:
  assumes "0 \<le> x"
  shows "0 \<le> fl x"
proof (cases "x = 0")
  case True
  then show ?thesis by (simp add: fl_zero)
next
  case False
  with assms have x: "0 < x" by simp
  have "(0::rat) < 2 powi (ilog2 x)" by simp
  with fl_bounds(1) [OF x] show ?thesis by linarith
qed

lemma fl_mono:
  assumes "0 \<le> x" "x \<le> y"
  shows "fl x \<le> fl y"
proof (cases "x = 0")
  case True
  then show ?thesis using fl_nonneg [of y] assms by (simp add: fl_zero)
next
  case False
  with assms have x: "0 < x" and y: "0 < y" by simp_all
  have le: "ilog2 x \<le> ilog2 y" using ilog2_mono [OF x assms(2)] .
  show ?thesis
  proof (cases "ilog2 x = ilog2 y")
    case True
    define u :: rat where "u = 2 powi (ilog2 x - 52)"
    have u: "0 < u" by (simp add: u_def)
    have "x / u \<le> y / u" using assms(2) u by (simp add: divide_right_mono)
    from round_half_even_mono [OF this]
    have "(of_int (round_half_even (x / u)) :: rat) \<le> of_int (round_half_even (y / u))"
      by (simp only: of_int_le_iff)
    then have "of_int (round_half_even (x / u)) * u \<le> of_int (round_half_even (y / u)) * u"
      using u by (simp add: mult_right_mono)
    moreover have "fl x = of_int (round_half_even (x / u)) * u"
      using x by (simp add: fl_pos_eq u_def)
    moreover have "fl y = of_int (round_half_even (y / u)) * u"
      using y True by (simp add: fl_pos_eq u_def)
    ultimately show ?thesis by simp
  next
    case False
    with le have "ilog2 x + 1 \<le> ilog2 y" by simp
    then have "(2::rat) powi (ilog2 x + 1) \<le> 2 powi (ilog2 y)"
      by (rule power_int_increasing) simp
    with fl_bounds(2) [OF x] fl_bounds(1) [OF y] show ?thesis by linarith
  qed
qed

lemma Math_round_mono: "x \<le> y \<Longrightarrow> Math_round x \<le> Math_round y"
  by (simp add: Math_round_def floor_mono)

lemma overallScore_mono_compliant:
  assumes "c \<le> c'" "c + nc + p = c' + nc' + p"
  shows "overallScore c nc p \<le> overallScore c' nc' p"
proof (cases "c + nc + p = 0")
  case True
  with assms show ?thesis by (simp add: overallScore_def)
next
  case False
  define t :: rat where "t = of_nat (c + nc + p)"
  have "0 < c + nc + p" using False by simp
  then have t: "0 < t" unfolding t_def by (simp only: of_nat_0_less_iff)
  have "of_nat c / t \<le> of_nat c' / t"
    using assms(1) t by (simp add: divide_right_mono)
  moreover have "(0::rat) \<le> of_nat c / t" using t by simp
  ultimately have "fl (of_nat c / t) \<le> fl (of_nat c' / t)" by (rule fl_mono [rotated])
  then have "fl (of_nat c / t) * 100 \<le> fl (of_nat c' / t) * 100" by simp
  moreover have "0 \<le> fl (of_nat c / t) * 100"
    using fl_nonneg [of "of_nat c / t"] t by simp
  ultimately have a: "fl (fl (of_nat c / t) * 100) \<le> fl (fl (of_nat c' / t) * 100)"
    by (rule fl_mono [rotated])
  have a0: "0 \<le> fl (fl (of_nat c / t) * 100)"
    using fl_nonneg [of "of_nat c / t"] t by (intro fl_nonneg) simp
  have b0: "0 \<le> fl (fl (of_nat p / t) * 50)"
    using fl_nonneg [of "of_nat p / t"] t by (intro fl_nonneg) simp
  have "fl (fl (fl (of_nat c / t) * 100) + fl (fl (of_nat p / t) * 50))
      \<le> fl (fl (fl (of_nat c' / t) * 100) + fl (fl (of_nat p / t) * 50))"
    using a a0 b0 by (intro fl_mono) simp_all
  then have "Math_round (fl (fl (fl (of_nat c / t) * 100) + fl (fl (of_nat p / t) * 50)))
      \<le> Math_round (fl (fl (fl (of_nat c' / t) * 100) + fl (fl (of_nat p / t) * 50)))"
    by (rule Math_round_mono)
  moreover have "overallScore c nc p
      = Math_round (fl (fl (fl (of_nat c / t) * 100) + fl (fl (of_nat p / t) * 50)))"
    using False by (simp add: overallScore_def t_def Let_def)
  moreover have "overallScore c' nc' p
      = Math_round (fl (fl (fl (of_nat c' / t) * 100) + fl (fl (of_nat p / t) * 50)))"
    using False assms(2) by (simp add: overallScore_def t_def Let_def)
  ultimately show ?thesis by simp
qed

section \<open>The score against the formula over the rationals\<close>

text \<open>
  Each rounding is off by at most the fraction \<open>2\<^sup>-\<^sup>5\<^sup>3\<close> of its argument, so the sum that
  \<^verbatim>\<open>Math.round\<close> receives is within \<open>601 / 2\<^sup>5\<^sup>3\<close> of the exact value of the formula. With
  at most \<open>2\<^sup>3\<^sup>2\<close> controls that is less than the distance of any exact value from the next
  half-integer, unless the exact value is a half-integer itself.
\<close>

lemma round_half_even_error: "\<bar>of_int (round_half_even x) - x\<bar> \<le> 1/2"
proof -
  define r where "r = x - of_int \<lfloor>x\<rfloor>"
  have r: "0 \<le> r" "r < 1" unfolding r_def by linarith+
  have x: "x = of_int \<lfloor>x\<rfloor> + r" by (simp add: r_def)
  show ?thesis
    using r unfolding round_half_even_def Let_def r_def [symmetric]
    by (subst (1 2 3 4) x) (auto simp: abs_if)
qed

lemma fl_error:
  assumes "0 \<le> x"
  shows "\<bar>fl x - x\<bar> \<le> x / 2 ^ 53"
proof (cases "x = 0")
  case True
  then show ?thesis by (simp add: fl_zero)
next
  case False
  with assms have x: "0 < x" by simp
  define w :: rat where "w = 2 powi (ilog2 x - 52)"
  define m where "m = round_half_even (x / w)"
  have w: "0 < w" by (simp add: w_def)
  have f: "fl x = of_int m * w" using x by (simp add: fl_pos_eq w_def m_def)
  have "\<bar>of_int m - x / w\<bar> \<le> 1/2" unfolding m_def by (rule round_half_even_error)
  then have "\<bar>of_int m - x / w\<bar> * w \<le> 1/2 * w" using w by (simp add: mult_right_mono)
  moreover have "\<bar>of_int m - x / w\<bar> * w = \<bar>of_int m * w - x\<bar>"
  proof -
    have "\<bar>of_int m - x / w\<bar> * w = \<bar>(of_int m - x / w) * w\<bar>"
      using w by (simp add: abs_mult)
    also have "(of_int m - x / w) * w = of_int m * w - x"
      using w by (simp add: field_simps)
    finally show ?thesis .
  qed
  ultimately have e: "\<bar>fl x - x\<bar> \<le> w / 2" by (simp add: f)
  have "(2::rat) powi (ilog2 x) / 2 powi 52 = w" unfolding w_def by (rule p2_diff)
  then have "w = 2 powi (ilog2 x) / 2 ^ 52" by simp
  also have "\<dots> \<le> x / 2 ^ 52" using ilog2_bounds(1) [OF x] by (simp add: divide_right_mono)
  finally have "w / 2 \<le> x / 2 ^ 52 / 2" by simp
  also have "\<dots> = x / 2 ^ 53" by simp
  finally show ?thesis using e by linarith
qed

lemma scaled_quotient_error:
  fixes x k :: rat
  assumes x: "0 \<le> x" "x \<le> 1" and k: "0 \<le> k"
  shows "\<bar>fl (fl x * k) - k * x\<bar> \<le> 3 * k / 2 ^ 53" and "0 \<le> fl (fl x * k)"
proof -
  define d :: rat where "d = 1 / 2 ^ 53"
  have d: "0 < d" "d \<le> 1" by (simp_all add: d_def)
  have q: "\<bar>fl x - x\<bar> \<le> d"
  proof -
    have "\<bar>fl x - x\<bar> \<le> x / 2 ^ 53" using x(1) by (rule fl_error)
    also have "\<dots> \<le> 1 / 2 ^ 53" using x(2) by (simp add: divide_right_mono)
    finally show ?thesis by (simp add: d_def)
  qed
  have q0: "0 \<le> fl x" using x(1) by (rule fl_nonneg)
  have q2: "fl x \<le> 2" using q x(2) d by (simp add: abs_le_iff)
  have p0: "0 \<le> fl x * k" using q0 k by simp
  show "0 \<le> fl (fl x * k)" using p0 by (rule fl_nonneg)
  have "\<bar>fl (fl x * k) - fl x * k\<bar> \<le> fl x * k / 2 ^ 53" using p0 by (rule fl_error)
  also have "\<dots> = fl x * k * d" by (simp add: d_def)
  also have "\<dots> \<le> 2 * k * d"
    using q2 k d by (intro mult_right_mono) simp_all
  finally have a: "\<bar>fl (fl x * k) - fl x * k\<bar> \<le> 2 * k * d" .
  have "fl x * k - k * x = (fl x - x) * k" by (simp add: algebra_simps)
  then have "\<bar>fl x * k - k * x\<bar> = \<bar>fl x - x\<bar> * k"
    using k by (simp add: abs_mult)
  also have "\<dots> \<le> d * k" using q k by (rule mult_right_mono)
  finally have b: "\<bar>fl x * k - k * x\<bar> \<le> k * d" by (simp add: mult.commute)
  have "\<bar>fl (fl x * k) - k * x\<bar> \<le> \<bar>fl (fl x * k) - fl x * k\<bar> + \<bar>fl x * k - k * x\<bar>"
    by linarith
  also have "\<dots> \<le> 2 * k * d + k * d" using a b by linarith
  also have "\<dots> = 3 * k / 2 ^ 53" by (simp add: d_def)
  finally show "\<bar>fl (fl x * k) - k * x\<bar> \<le> 3 * k / 2 ^ 53" .
qed

lemma score_sum_error:
  fixes x y :: rat
  assumes x: "0 \<le> x" "x \<le> 1" and y: "0 \<le> y" "y \<le> 1"
  shows "\<bar>fl (fl (fl x * 100) + fl (fl y * 50)) - (100 * x + 50 * y)\<bar> \<le> 601 / 2 ^ 53"
proof -
  define d :: rat where "d = 1 / 2 ^ 53"
  have d: "0 < d" "450 * d \<le> 1" by (simp_all add: d_def)
  define a where "a = fl (fl x * 100)"
  define b where "b = fl (fl y * 50)"
  have ea: "\<bar>a - 100 * x\<bar> \<le> 300 * d" and a0: "0 \<le> a"
    using scaled_quotient_error [OF x, of 100] by (simp_all add: a_def d_def)
  have eb: "\<bar>b - 50 * y\<bar> \<le> 150 * d" and b0: "0 \<le> b"
    using scaled_quotient_error [OF y, of 50] by (simp_all add: b_def d_def)
  have s: "a + b \<le> 151" using ea eb x(2) y(2) d by linarith
  have "\<bar>fl (a + b) - (a + b)\<bar> \<le> (a + b) / 2 ^ 53"
    using a0 b0 by (intro fl_error) simp
  also have "\<dots> = (a + b) * d" by (simp add: d_def)
  also have "\<dots> \<le> 151 * d" using s d(1) by (simp add: mult_right_mono)
  finally have es: "\<bar>fl (a + b) - (a + b)\<bar> \<le> 151 * d" .
  have "\<bar>fl (a + b) - (100 * x + 50 * y)\<bar> \<le> 601 * d" using es ea eb by linarith
  then show ?thesis by (simp add: a_def b_def d_def)
qed

lemma overallScore_vs_formula:
  fixes c nc p :: nat
  assumes t: "c + nc + p \<le> 2 ^ 32"
  shows "overallScore c nc p \<le> spec_score c nc p"
    and "spec_score c nc p - 1 \<le> overallScore c nc p"
    and "(200 * c + 100 * p + (c + nc + p)) mod (2 * (c + nc + p)) \<noteq> 0
           \<Longrightarrow> overallScore c nc p = spec_score c nc p"
proof -
  define n where "n = c + nc + p"
  define M where "M = 2 * n"
  define N where "N = 200 * c + 100 * p + n"
  define q where "q = N div M"
  define r where "r = N mod M"
  have goal: "overallScore c nc p \<le> spec_score c nc p
      \<and> spec_score c nc p - 1 \<le> overallScore c nc p
      \<and> (r \<noteq> 0 \<longrightarrow> overallScore c nc p = spec_score c nc p)"
  proof (cases "n = 0")
    case True
    then show ?thesis by (simp add: overallScore_def spec_score_def n_def)
  next
    case False
    then have n0: "0 < n" by simp
    define T :: rat where "T = of_nat n"
    have T: "0 < T" using n0 by (simp add: T_def)
    have T32: "T \<le> 2 ^ 32"
    proof -
      have "(of_nat n :: rat) \<le> of_nat (2 ^ 32)" using t unfolding n_def by (simp only: of_nat_le_iff)
      then show ?thesis by (simp add: T_def)
    qed
    define x :: rat where "x = of_nat c / T"
    define y :: rat where "y = of_nat p / T"
    have "(of_nat c :: rat) \<le> of_nat n" "(of_nat p :: rat) \<le> of_nat n"
      unfolding n_def by simp_all
    then have xy: "0 \<le> x" "x \<le> 1" "0 \<le> y" "y \<le> 1"
      using T by (simp_all add: x_def y_def T_def)
    define s where "s = fl (fl (fl x * 100) + fl (fl y * 50))"
    define v where "v = 100 * x + 50 * y"
    define E :: rat where "E = 601 / 2 ^ 53"
    have err: "\<bar>s - v\<bar> \<le> E"
      unfolding s_def v_def E_def using xy by (rule score_sum_error)
    have code: "overallScore c nc p = \<lfloor>s + 1/2\<rfloor>"
      using n0 by (simp add: overallScore_def Math_round_def s_def x_def y_def T_def n_def Let_def)
    have spec: "spec_score c nc p = \<lfloor>v + 1/2\<rfloor>"
      using n0 by (simp add: spec_score_def Math_round_def v_def x_def y_def T_def n_def Let_def)
    have M0: "0 < M" using n0 by (simp add: M_def)
    have MT: "(of_nat M :: rat) = 2 * T" by (simp add: M_def T_def)
    have "N = M * q + r" by (simp add: q_def r_def)
    then have "(of_nat N :: rat) = of_nat M * of_nat q + of_nat r"
      by (simp only: of_nat_add of_nat_mult)
    moreover have "(of_nat N :: rat) = 200 * of_nat c + 100 * of_nat p + T"
      by (simp add: N_def T_def)
    ultimately have "200 * of_nat c + 100 * of_nat p + T = 2 * T * of_nat q + of_nat r"
      by (simp add: MT)
    then have w: "v + 1/2 = of_nat q + of_nat r / (2 * T)"
      using T by (simp add: v_def x_def y_def field_simps)
    have "r < M" unfolding r_def using M0 by simp
    then have "r + 1 \<le> M" by simp
    then have "(of_nat (r + 1) :: rat) \<le> of_nat M" by (simp only: of_nat_le_iff)
    then have r_hi: "of_nat r + 1 \<le> 2 * T" by (simp add: MT)
    have r_lo: "(0::rat) \<le> of_nat r" by simp
    have ET: "E * (2 * T) < 1"
    proof -
      have "E * (2 * T) \<le> E * (2 * 2 ^ 32)" using T32 by (simp add: E_def)
      also have "\<dots> < 1" by (simp add: E_def)
      finally show ?thesis .
    qed
    define g :: rat where "g = 1 / (2 * T)"
    have g: "0 < g" "E < g" "g \<le> 1"
    proof -
      show "0 < g" using T by (simp add: g_def)
      show "E < g" using ET T by (simp add: g_def field_simps)
      have "1 \<le> T" using n0 unfolding T_def by simp
      then show "g \<le> 1" using T by (simp add: g_def field_simps)
    qed
    define z :: rat where "z = of_nat r * g"
    have wz: "v + 1/2 = of_nat q + z" by (simp add: w z_def g_def)
    have hi: "z \<le> 1 - g"
    proof -
      have "of_nat r * g \<le> (2 * T - 1) * g" using r_hi g(1) by (intro mult_right_mono) simp_all
      also have "\<dots> = 1 - g" using T by (simp add: g_def field_simps)
      finally show ?thesis by (simp add: z_def)
    qed
    have lo: "0 \<le> z" using g(1) by (simp add: z_def)
    have nz: "g \<le> z" if "r \<noteq> 0"
    proof -
      from that have "1 \<le> r" by simp
      then have "(of_nat 1 :: rat) \<le> of_nat r" by (simp only: of_nat_le_iff)
      then have "1 * g \<le> of_nat r * g" using g(1) by (intro mult_right_mono) simp_all
      then show ?thesis by (simp add: z_def)
    qed
    have qq: "(of_int (int q) :: rat) = of_nat q" by simp
    have s_lo: "v + 1/2 - E \<le> s + 1/2" and s_hi: "s + 1/2 \<le> v + 1/2 + E"
      using err by (simp_all add: abs_le_iff)
    have fl_spec: "\<lfloor>v + 1/2\<rfloor> = int q"
    proof (rule floor_unique)
      show "of_int (int q) \<le> v + 1/2" using lo wz qq by linarith
      show "v + 1/2 < of_int (int q) + 1" using hi g(1) wz qq by linarith
    qed
    have upper: "\<lfloor>s + 1/2\<rfloor> \<le> int q"
    proof -
      have "s + 1/2 < of_int (int q) + 1" using s_hi hi g wz qq by linarith
      then have "s + 1/2 < of_int (int q + 1)" by simp
      then have "\<lfloor>s + 1/2\<rfloor> < int q + 1" by (simp only: floor_less_iff)
      then show ?thesis by simp
    qed
    have lower: "int q - 1 \<le> \<lfloor>s + 1/2\<rfloor>"
    proof -
      have "of_int (int q) - 1 \<le> s + 1/2" using s_lo lo g wz qq by linarith
      then have "of_int (int q - 1) \<le> s + 1/2" by simp
      then show ?thesis by (simp only: le_floor_iff)
    qed
    have exact: "\<lfloor>s + 1/2\<rfloor> = int q" if "r \<noteq> 0"
    proof (rule floor_unique)
      show "of_int (int q) \<le> s + 1/2" using s_lo g wz qq nz [OF that] by linarith
      show "s + 1/2 < of_int (int q) + 1" using s_hi hi g wz qq by linarith
    qed
    show ?thesis using upper lower exact by (simp add: code spec fl_spec)
  qed
  show "overallScore c nc p \<le> spec_score c nc p" using goal by simp
  show "spec_score c nc p - 1 \<le> overallScore c nc p" using goal by simp
  show "overallScore c nc p = spec_score c nc p"
    if "(200 * c + 100 * p + (c + nc + p)) mod (2 * (c + nc + p)) \<noteq> 0"
    using goal that by (simp add: r_def N_def M_def n_def)
qed

lemma calculateRiskLevel_thresholds:
  "calculateRiskLevel score = low \<longleftrightarrow> 90 \<le> score"
  "calculateRiskLevel score = medium \<longleftrightarrow> 70 \<le> score \<and> score < 90"
  "calculateRiskLevel score = high \<longleftrightarrow> 50 \<le> score \<and> score < 70"
  "calculateRiskLevel score = critical \<longleftrightarrow> score < 50"
  by (auto simp: calculateRiskLevel_def)

lemma overallScore_nothing_assessed: "overallScore 0 0 0 = 0"
  by (simp add: overallScore_def)

section \<open>Monotonicity of the score\<close>

text \<open>
  C9. For a fixed control set, moving \<open>k\<close> controls from non-compliant to compliant, with the
  partial count unchanged, never lowers the score: \<open>score (c + k, nc - k, p) \<ge> score (c, nc, p)\<close>
  for every \<open>k \<le> nc\<close>. This holds of the score as the code computes it, in double precision.
\<close>

theorem score_monotone:
  "k \<le> nc \<Longrightarrow> overallScore c nc p \<le> overallScore (c + k) (nc - k) p"
  by (rule overallScore_mono_compliant) simp_all

theorem score_monotone_witness:
  "(1::nat) \<le> 2 \<and> overallScore 1 2 0 \<le> overallScore 2 1 0"
proof -
  have h: "(1::nat) \<le> 2" by simp
  have e: "(1::nat) + 1 = 2" "(2::nat) - 1 = 1" by simp_all
  from score_monotone [OF h, of 1 0] have "overallScore 1 2 0 \<le> overallScore 2 1 0"
    unfolding e .
  with h show ?thesis by simp
qed


text \<open>
  The score is between \<open>0\<close> and \<open>100\<close>, so it always meets the \<^verbatim>\<open>CHECK\<close> on
  \<^verbatim>\<open>overall_score\<close>.
\<close>

lemma overallScore_range: "0 \<le> overallScore c nc p \<and> overallScore c nc p \<le> 100"
proof (cases "c + nc + p = 0")
  case True
  then show ?thesis by (simp add: overallScore_def)
next
  case False
  define t :: rat where "t = of_nat (c + nc + p)"
  have "0 < c + nc + p" using False by simp
  then have t: "0 < t" unfolding t_def by (simp only: of_nat_0_less_iff)
  define x where "x = of_nat c / t"
  define y where "y = of_nat p / t"
  have x: "0 \<le> x" "x \<le> 1" using t by (simp_all add: x_def t_def)
  have y: "0 \<le> y" "y \<le> 1" using t by (simp_all add: y_def t_def)
  have "x + y = of_nat (c + p) / t" by (simp add: x_def y_def add_divide_distrib)
  also have "\<dots> \<le> 1" using t by (simp add: t_def)
  finally have xy: "x + y \<le> 1" .
  define d :: rat where "d = 1 / 2 ^ 53"
  have d: "0 < d" "601 * d < 1 / 2" by (simp_all add: d_def)
  define s where "s = fl (fl (fl x * 100) + fl (fl y * 50))"
  have "\<bar>s - (100 * x + 50 * y)\<bar> \<le> 601 / 2 ^ 53"
    unfolding s_def using x y by (rule score_sum_error)
  then have e: "\<bar>s - (100 * x + 50 * y)\<bar> \<le> 601 * d" by (simp add: d_def)
  have a0: "0 \<le> fl (fl x * 100)" using fl_nonneg [of x] x by (intro fl_nonneg) simp
  have b0: "0 \<le> fl (fl y * 50)" using fl_nonneg [of y] y by (intro fl_nonneg) simp
  have s0: "0 \<le> s" unfolding s_def using a0 b0 by (intro fl_nonneg) simp
  have s1: "s + 1 / 2 < 101" using e x y xy d by linarith
  have "0 \<le> \<lfloor>s + 1 / 2\<rfloor>" using s0 by simp
  moreover have "\<lfloor>s + 1 / 2\<rfloor> < 101" using s1 by (simp add: floor_less_iff)
  moreover have "overallScore c nc p = \<lfloor>s + 1 / 2\<rfloor>"
    using False by (simp add: overallScore_def Math_round_def s_def x_def y_def t_def Let_def)
  ultimately show ?thesis by simp
qed

section \<open>Transactions and the run of an assessment\<close>

lemma tick_Some: "tick (Some n) = (if n = 0 then Inl StorageError else Inr (Some (n - 1)))"
  by (cases n) simp_all

lemma tick_executes:
  "executes (Suc n) f \<Longrightarrow> \<exists>f'. tick f = Inr f' \<and> executes n f'"
  by (cases f) (auto simp: executes_def tick_Some)

lemma tick_Inl: "tick f = Inl err \<Longrightarrow> err = StorageError"
  by (cases f) (auto simp: tick_Some split: if_splits)

lemma stmt_executes:
  "executes (Suc n) (tx_faults t) \<Longrightarrow> \<exists>f'. stmt t = Inr (t\<lparr>tx_faults := f'\<rparr>) \<and> executes n f'"
  using tick_executes [of n "tx_faults t"] by (auto simp: stmt_def)

lemma stmt_Inr: "stmt t = Inr t' \<Longrightarrow> \<exists>f'. t' = t\<lparr>tx_faults := f'\<rparr>"
  by (auto simp: stmt_def throw_def split: sum.splits)

lemma stmt_no_faults: "tx_faults t = None \<Longrightarrow> stmt t = Inr t"
  by (simp add: stmt_def)

lemma transaction_Inl: "transaction callback f db = (Inl err, db') \<Longrightarrow> db' = db"
  by (auto simp: transaction_def split: sum.splits prod.splits)

lemma transaction_Inr:
  "transaction callback f db = (Inr r, db') \<Longrightarrow>
     \<exists>f1 t. tick f = Inr f1
       \<and> callback \<lparr>tx_db = db, tx_faults = f1, tx_uuids = 0, tx_userId = None,
                    tx_changeReason = None\<rparr> = Inr (r, t)
       \<and> tx_db t = db'"
  by (auto simp: transaction_def and_then_def stmt_def throw_def split: sum.splits prod.splits)

text \<open>
  A transaction whose callback throws: the error thrown comes out when the store executes
  \<^verbatim>\<open>ROLLBACK\<close>, and the error of the store otherwise.
\<close>

lemma transaction_throws:
  assumes "tick f = Inr f1"
    and "callback \<lparr>tx_db = db, tx_faults = f1, tx_uuids = 0, tx_userId = None,
                    tx_changeReason = None\<rparr> = Inl (err, f2)"
  shows "transaction callback f db
           = (Inl (case tick f2 of Inl rollback_error \<Rightarrow> rollback_error | Inr _ \<Rightarrow> err), db)"
  using assms by (simp add: transaction_def and_then_def stmt_def split: sum.splits)

lemma varchar_fits: "length s \<le> n \<Longrightarrow> varchar n s = Some s"
  by (simp add: varchar_def)

lemma bind_varchar_fits: "fits n s \<Longrightarrow> bind_varchar n s = Some s"
  by (simp add: bind_varchar_def varchar_def fits_def)

lemma bind_opt_varchar_fits:
  "(case s of None \<Rightarrow> True | Some v \<Rightarrow> fits n v) \<Longrightarrow> bind_opt (bind_varchar n) s = Some s"
  by (cases s) (simp_all add: bind_opt_def bind_varchar_fits)

lemma bind_opt_text_ok:
  "(case s of None \<Rightarrow> True | Some v \<Rightarrow> text_ok v) \<Longrightarrow> bind_opt bind_text s = Some s"
  by (cases s) (simp_all add: bind_opt_def bind_text_def)

lemma runAssessment_invalid:
  assumes pu: "parse_uuid assessmentId = Some aid"
    and tenant: "text_ok (ctx_tenantId ctx)"
    and sel: "select_assessment aid (ctx_tenantId ctx) db = a0 # rest"
    and st: "asm_status a0 \<noteq> pending" "asm_status a0 \<noteq> failed"
    and ex: "executes 3 f"
  shows "runAssessment ctx assessmentId options e f db = (Inl (InvalidState (asm_status a0)), db)"
proof -
  from ex obtain f1 where f1: "tick f = Inr f1" "executes 2 f1"
    using tick_executes [of 2 f] by (auto simp: numeral_3_eq_3 numeral_2_eq_2)
  from f1(2) obtain f2 where f2: "tick f1 = Inr f2" "executes 1 f2"
    using tick_executes [of 1 f1] by (auto simp: numeral_2_eq_2)
  from f2(2) obtain f3 where f3: "tick f2 = Inr f3"
    using tick_executes [of 0 f2] by auto
  show ?thesis
    using pu tenant sel st f1(1) f2(1) f3
    by (simp add: runAssessment_def transaction_def and_then_def stmt_def throw_def)
qed

lemma runAssessment_Inr_status:
  assumes "runAssessment ctx assessmentId options e f db = (Inr a, db')"
  shows "\<exists>aid a0 rest. parse_uuid assessmentId = Some aid \<and> text_ok (ctx_tenantId ctx)
           \<and> select_assessment aid (ctx_tenantId ctx) db = a0 # rest
           \<and> (asm_status a0 = pending \<or> asm_status a0 = failed)"
proof -
  from transaction_Inr [OF assms [unfolded runAssessment_def]]
  show ?thesis
    by (auto simp: and_then_def stmt_def throw_def
             split: sum.splits list.splits if_splits option.splits)
qed

lemma assess_control_counts:
  assumes "assess_control options e r control cs = ((st, sev, msg, conf), cs')"
  shows "n_compliant cs' = n_compliant cs + (if st = compliant then 1 else 0)"
    and "n_nonCompliant cs' = n_nonCompliant cs + (if st = non_compliant then 1 else 0)"
    and "n_partial cs' = n_partial cs + (if st = partial then 1 else 0)"
    and "n_notApplicable cs' = n_notApplicable cs + (if st = not_applicable then 1 else 0)"
    and "\<not> (run_useAI options \<and> env_aiEnabled e) \<Longrightarrow> st = not_assessed \<and> conf = 0"
  using assms by (auto simp: assess_control_def Let_def split: if_splits)

lemma insert_finding_Inr:
  assumes "insert_finding ctx aid options e fid control (st, sev, msg, conf) t = Inr t'"
  shows "\<exists>row. tx_db t' = (tx_db t)\<lparr>db_findings := db_findings (tx_db t) @ [row]\<rparr>
           \<and> fnd_controlId row = ctl_id control \<and> fnd_status row = st
           \<and> fnd_assessmentId row = aid
           \<and> fnd_aiConfidence row = (if run_useAI options then Some conf else None)"
  using assms
  by (auto simp: insert_finding_def and_then_def stmt_def throw_def
           split: sum.splits option.splits)

lemma assess_controls_Inr:
  "assess_controls ctx aid options e i controls cs t = Inr (cs', t') \<Longrightarrow>
     \<exists>new. tx_db t' = (tx_db t)\<lparr>db_findings := db_findings (tx_db t) @ new\<rparr>
       \<and> map fnd_controlId new = map ctl_id controls
       \<and> (\<forall>r \<in> set new. fnd_assessmentId r = aid)
       \<and> n_compliant cs' = n_compliant cs + count_status compliant new
       \<and> n_nonCompliant cs' = n_nonCompliant cs + count_status non_compliant new
       \<and> n_partial cs' = n_partial cs + count_status partial new
       \<and> n_notApplicable cs' = n_notApplicable cs + count_status not_applicable new
       \<and> (\<not> (run_useAI options \<and> env_aiEnabled e) \<longrightarrow>
            (\<forall>r \<in> set new. fnd_status r = not_assessed
               \<and> fnd_aiConfidence r = (if run_useAI options then Some 0 else None)))"
proof (induction controls arbitrary: i cs t)
  case Nil
  then show ?case by (auto simp: count_status_def)
next
  case (Cons control rest)
  obtain fid t1 where u: "fresh_uuid e t = (fid, t1)" by (cases "fresh_uuid e t")
  have t1: "tx_db t1 = tx_db t" using u by (auto simp: fresh_uuid_def)
  obtain st sev msg conf cs1
    where ac: "assess_control options e (env_random e i) control cs = ((st, sev, msg, conf), cs1)"
    by (metis prod_cases4 surj_pair)
  from Cons.prems u ac obtain t2
    where ins: "insert_finding ctx aid options e fid control (st, sev, msg, conf) t1 = Inr t2"
      and rec: "assess_controls ctx aid options e (Suc i) rest cs1 t2 = Inr (cs', t')"
    by (auto simp: and_then_def split: sum.splits)
  from insert_finding_Inr [OF ins] obtain row
    where row: "tx_db t2 = (tx_db t1)\<lparr>db_findings := db_findings (tx_db t1) @ [row]\<rparr>"
      "fnd_controlId row = ctl_id control" "fnd_status row = st"
      "fnd_assessmentId row = aid"
      "fnd_aiConfidence row = (if run_useAI options then Some conf else None)"
    by blast
  from Cons.IH [OF rec] obtain new
    where new: "tx_db t' = (tx_db t2)\<lparr>db_findings := db_findings (tx_db t2) @ new\<rparr>"
      "map fnd_controlId new = map ctl_id rest"
      "\<forall>r \<in> set new. fnd_assessmentId r = aid"
      "n_compliant cs' = n_compliant cs1 + count_status compliant new"
      "n_nonCompliant cs' = n_nonCompliant cs1 + count_status non_compliant new"
      "n_partial cs' = n_partial cs1 + count_status partial new"
      "n_notApplicable cs' = n_notApplicable cs1 + count_status not_applicable new"
      "\<not> (run_useAI options \<and> env_aiEnabled e) \<longrightarrow>
         (\<forall>r \<in> set new. fnd_status r = not_assessed
            \<and> fnd_aiConfidence r = (if run_useAI options then Some 0 else None))"
    by blast
  note cnt = assess_control_counts [OF ac]
  show ?case
  proof (intro exI [of _ "row # new"] conjI)
    show "tx_db t' = (tx_db t)\<lparr>db_findings := db_findings (tx_db t) @ row # new\<rparr>"
      using new(1) row(1) t1 by simp
    show "map fnd_controlId (row # new) = map ctl_id (control # rest)"
      using new(2) row(2) by simp
    show "\<forall>r \<in> set (row # new). fnd_assessmentId r = aid"
      using new(3) row(4) by simp
    show "n_compliant cs' = n_compliant cs + count_status compliant (row # new)"
      using new(4) cnt(1) row(3) by (simp add: count_status_def)
    show "n_nonCompliant cs' = n_nonCompliant cs + count_status non_compliant (row # new)"
      using new(5) cnt(2) row(3) by (simp add: count_status_def)
    show "n_partial cs' = n_partial cs + count_status partial (row # new)"
      using new(6) cnt(3) row(3) by (simp add: count_status_def)
    show "n_notApplicable cs' = n_notApplicable cs + count_status not_applicable (row # new)"
      using new(7) cnt(4) row(3) by (simp add: count_status_def)
    show "\<not> (run_useAI options \<and> env_aiEnabled e) \<longrightarrow>
         (\<forall>r \<in> set (row # new). fnd_status r = not_assessed
            \<and> fnd_aiConfidence r = (if run_useAI options then Some 0 else None))"
      using new(8) cnt(5) row(3,5) by auto
  qed
qed

text \<open>
  Without AI the loop goes through on a store that does not fail, provided the tenant fits
  its column and every title leaves room for the fifteen characters of \<^verbatim>\<open> - not_assessed\<close>;
  it leaves the counters as they were.
\<close>

lemma assess_controls_no_faults:
  assumes "tx_faults t = None"
    and "\<not> (run_useAI options \<and> env_aiEnabled e)"
    and "fits 255 (ctx_tenantId ctx)"
    and "\<forall>c \<in> set controls. length (ctl_title c) \<le> 485"
  shows "\<exists>t'. assess_controls ctx aid options e i controls cs t = Inr (cs, t')
           \<and> tx_faults t' = None"
  using assms(1,4)
proof (induction controls arbitrary: i t)
  case Nil
  then show ?case by simp
next
  case (Cons control rest)
  obtain fid t1 where u: "fresh_uuid e t = (fid, t1)" by (cases "fresh_uuid e t")
  have t1: "tx_faults t1 = None" using u Cons.prems by (auto simp: fresh_uuid_def)
  have ac: "assess_control options e (env_random e i) control cs = ((not_assessed, None, None, 0), cs)"
    using assms(2) by (auto simp: assess_control_def)
  have title: "length (ctl_title control @ '' - '' @ status_text not_assessed) \<le> 500"
    using Cons.prems(2) by simp
  obtain t2 where
    ins: "insert_finding ctx aid options e fid control (not_assessed, None, None, 0) t1 = Inr t2"
    and t2: "tx_faults t2 = None"
    using t1 assms(3) title
    by (simp add: insert_finding_def and_then_def stmt_def varchar_fits bind_varchar_fits
          bind_opt_def)
  from Cons.prems(2) have "\<forall>c \<in> set rest. length (ctl_title c) \<le> 485" by simp
  from Cons.IH [OF t2 this] show ?case
    using u ac ins by (auto simp: and_then_def)
qed

lemma count_status_total:
  "length rows = count_status compliant rows + count_status non_compliant rows
     + count_status partial rows + count_status not_applicable rows
     + count_status not_assessed rows"
proof (induction rows)
  case Nil
  then show ?case by (simp add: count_status_def)
next
  case (Cons r rows)
  then show ?case by (cases "fnd_status r") (simp_all add: count_status_def)
qed

lemma applicable_controls_cong:
  "db_controls db1 = db_controls db2 \<Longrightarrow> applicable_controls a db1 = applicable_controls a db2"
  by (simp add: applicable_controls_def)

lemma update_assessment_Inr:
  assumes "update_assessment aid upd t = Inr (rows, t')"
  shows "rows = map upd (filter (\<lambda>a. asm_id a = aid) (db_assessments (tx_db t)))"
    and "tx_db t' = (tx_db t)\<lparr>db_assessments :=
           map (\<lambda>a. if asm_id a = aid then upd a else a) (db_assessments (tx_db t))\<rparr>"
  using assms
  by (auto simp: update_assessment_def and_then_def stmt_def throw_def split: sum.splits)

lemma complete_assessment_Inr:
  assumes "complete_assessment aid options e score riskLevel controls cs t = Inr (rows, t')"
  shows "\<exists>model. update_assessment aid
                    (store_results options e score riskLevel controls cs model) t
                  = Inr (rows, t')"
  using assms
  by (auto simp: complete_assessment_def and_then_def stmt_def throw_def
           split: option.splits if_splits sum.splits)

lemma map_if_twice:
  "map (\<lambda>a. if P a then g a else a) (map (\<lambda>a. if P a then h a else a) xs)
     = map (\<lambda>a. if P a then g (h a) else a) xs" if "\<And>a. P a \<Longrightarrow> P (h a)"
  using that by (induction xs) auto

lemma filter_map_if:
  "filter P (map (\<lambda>a. if P a then h a else a) xs) = map h (filter P xs)"
  if "\<And>a. P a \<Longrightarrow> P (h a)"
  using that by (induction xs) auto

lemma asm_id_mark [simp]: "asm_id (mark_in_progress e a) = asm_id a"
  by (simp add: mark_in_progress_def)

lemma runAssessment_Inr:
  assumes run: "runAssessment ctx assessmentId options e f db = (Inr a, db')"
  shows "\<exists>aid a0 rest cs new x0 xs model.
     parse_uuid assessmentId = Some aid
     \<and> text_ok (ctx_tenantId ctx)
     \<and> select_assessment aid (ctx_tenantId ctx) db = a0 # rest
     \<and> (asm_status a0 = pending \<or> asm_status a0 = failed)
     \<and> db_findings db' = db_findings db @ new
     \<and> map fnd_controlId new = map ctl_id (applicable_controls a0 db)
     \<and> (\<forall>r \<in> set new. fnd_assessmentId r = aid)
     \<and> n_compliant cs = count_status compliant new
     \<and> n_nonCompliant cs = count_status non_compliant new
     \<and> n_partial cs = count_status partial new
     \<and> n_notApplicable cs = count_status not_applicable new
     \<and> (\<not> (run_useAI options \<and> env_aiEnabled e) \<longrightarrow>
            (\<forall>r \<in> set new. fnd_status r = not_assessed
               \<and> fnd_aiConfidence r = (if run_useAI options then Some 0 else None)))
     \<and> db_assessments db' =
           map (\<lambda>x. if asm_id x = aid
                    then store_results options e
                           (overallScore (n_compliant cs) (n_nonCompliant cs) (n_partial cs))
                           (calculateRiskLevel
                              (overallScore (n_compliant cs) (n_nonCompliant cs) (n_partial cs)))
                           (applicable_controls a0 db) cs model (mark_in_progress e x)
                    else x) (db_assessments db)
     \<and> filter (\<lambda>x. asm_id x = aid) (db_assessments db) = x0 # xs
     \<and> a = store_results options e
               (overallScore (n_compliant cs) (n_nonCompliant cs) (n_partial cs))
               (calculateRiskLevel
                  (overallScore (n_compliant cs) (n_nonCompliant cs) (n_partial cs)))
               (applicable_controls a0 db) cs model (mark_in_progress e x0)
     \<and> db_configs db' = db_configs db \<and> db_audits db' = db_audits db
     \<and> db_controls db' = db_controls db"
proof -
  from transaction_Inr [OF run [unfolded runAssessment_def]]
  obtain f1 t9 where f1: "tick f = Inr f1" and db': "tx_db t9 = db'"
    and body: "and_then (stmt \<lparr>tx_db = db, tx_faults = f1, tx_uuids = 0, tx_userId = None,
                    tx_changeReason = None\<rparr>) (\<lambda>t.
       case parse_uuid assessmentId of
         None \<Rightarrow> throw DataError t
       | Some aid \<Rightarrow>
       if \<not> text_ok (ctx_tenantId ctx) then throw DataError t else
       case select_assessment aid (ctx_tenantId ctx) (tx_db t) of
         [] \<Rightarrow> throw AssessmentNotFound t
       | assessment # _ \<Rightarrow>
           if asm_status assessment \<noteq> pending \<and> asm_status assessment \<noteq> failed
           then throw (InvalidState (asm_status assessment)) t
           else
             and_then (update_assessment aid (mark_in_progress e) t) (\<lambda>(_, t).
             and_then (stmt t) (\<lambda>t.
             let controls = applicable_controls assessment (tx_db t)
             in and_then (assess_controls ctx aid options e 0 controls no_counts t)
                  (\<lambda>(cs, t).
             let score = overallScore (n_compliant cs) (n_nonCompliant cs) (n_partial cs);
                 riskLevel = calculateRiskLevel score
             in and_then (complete_assessment aid options e score riskLevel controls cs t)
                  (\<lambda>(rows, t).
             case rows of
               [] \<Rightarrow> throw TypeError t
             | finalAssessment # _ \<Rightarrow> Inr (finalAssessment, t)))))) = Inr (a, t9)"
    by blast
  from body obtain t1 where s1: "stmt \<lparr>tx_db = db, tx_faults = f1, tx_uuids = 0,
      tx_userId = None, tx_changeReason = None\<rparr> = Inr t1"
    by (auto simp: and_then_def split: sum.splits)
  from stmt_Inr [OF s1] have t1: "tx_db t1 = db" by auto
  from body s1 obtain aid where pu: "parse_uuid assessmentId = Some aid"
    by (auto simp: and_then_def throw_def split: option.splits)
  from body s1 pu have tenant: "text_ok (ctx_tenantId ctx)"
    by (auto simp: and_then_def throw_def split: if_splits)
  from body s1 t1 pu tenant obtain a0 rest where
    sel: "select_assessment aid (ctx_tenantId ctx) db = a0 # rest"
    by (auto simp: and_then_def throw_def split: list.splits)
  from body s1 t1 pu tenant sel have st: "asm_status a0 = pending \<or> asm_status a0 = failed"
    by (auto simp: and_then_def throw_def split: if_splits)
  from body s1 t1 pu tenant sel st obtain r2 t2 where
    u2: "update_assessment aid (mark_in_progress e) t1 = Inr (r2, t2)"
    by (auto simp: and_then_def throw_def split: sum.splits if_splits)
  from body s1 t1 pu tenant sel st u2 obtain t3 where s3: "stmt t2 = Inr t3"
    by (auto simp: and_then_def throw_def split: sum.splits if_splits)
  from stmt_Inr [OF s3] have t3: "tx_db t3 = tx_db t2" by auto
  define controls where "controls = applicable_controls a0 (tx_db t3)"
  from body s1 t1 pu tenant sel st u2 s3 obtain cs t4 where
    loop: "assess_controls ctx aid options e 0 controls no_counts t3 = Inr (cs, t4)"
    by (auto simp: and_then_def throw_def controls_def Let_def split: sum.splits if_splits)
  define score where "score = overallScore (n_compliant cs) (n_nonCompliant cs) (n_partial cs)"
  from body s1 t1 pu tenant sel st u2 s3 loop obtain rows where
    c5: "complete_assessment aid options e score (calculateRiskLevel score) controls cs t4
           = Inr (rows, t9)" and rows: "rows = a # tl rows"
    by (auto simp: and_then_def throw_def controls_def [symmetric] score_def Let_def
             split: sum.splits if_splits list.splits)
  from complete_assessment_Inr [OF c5] obtain model where
    u5: "update_assessment aid
           (store_results options e score (calculateRiskLevel score) controls cs model) t4
         = Inr (rows, t9)"
    by blast
  define upd where "upd = store_results options e score (calculateRiskLevel score) controls cs model"
  note d2 = update_assessment_Inr [OF u2]
  note d5 = update_assessment_Inr [OF u5 [folded upd_def]]
  from assess_controls_Inr [OF loop] obtain new where
    new: "tx_db t4 = (tx_db t3)\<lparr>db_findings := db_findings (tx_db t3) @ new\<rparr>"
      "map fnd_controlId new = map ctl_id controls"
      "\<forall>r \<in> set new. fnd_assessmentId r = aid"
      "n_compliant cs = count_status compliant new"
      "n_nonCompliant cs = count_status non_compliant new"
      "n_partial cs = count_status partial new"
      "n_notApplicable cs = count_status not_applicable new"
      "\<not> (run_useAI options \<and> env_aiEnabled e) \<longrightarrow>
         (\<forall>r \<in> set new. fnd_status r = not_assessed
            \<and> fnd_aiConfidence r = (if run_useAI options then Some 0 else None))"
    by (auto simp: no_counts_def)
  have c: "controls = applicable_controls a0 db"
    unfolding controls_def by (rule applicable_controls_cong) (simp add: t3 d2(2) t1)
  have assessments: "db_assessments db' =
      map (\<lambda>x. if asm_id x = aid then upd (mark_in_progress e x) else x) (db_assessments db)"
    unfolding db' [symmetric] d5(2) new(1) t3 d2(2) t1
    by (simp add: map_if_twice [where P = "\<lambda>a. asm_id a = aid"] comp_def)
  have "rows = map upd (map (mark_in_progress e) (filter (\<lambda>x. asm_id x = aid) (db_assessments db)))"
    unfolding d5(1) new(1) t3 d2(2) t1
    by (simp add: filter_map_if [where P = "\<lambda>a. asm_id a = aid"])
  with rows obtain x0 xs where
    x0: "filter (\<lambda>x. asm_id x = aid) (db_assessments db) = x0 # xs"
      "a = upd (mark_in_progress e x0)"
    by (cases "filter (\<lambda>x. asm_id x = aid) (db_assessments db)") auto
  have others: "db_findings db' = db_findings db @ new" "db_configs db' = db_configs db"
    "db_audits db' = db_audits db" "db_controls db' = db_controls db"
    unfolding db' [symmetric] d5(2) new(1) t3 d2(2) t1 by simp_all
  show ?thesis
    using pu tenant sel st others new(2-8) assessments x0 unfolding upd_def score_def c by blast
qed

text \<open>
  A run without AI returns on a store that does not fail, when the values it binds fit their
  columns.
\<close>

lemma runAssessment_no_faults:
  assumes pu: "parse_uuid assessmentId = Some aid"
    and sel: "select_assessment aid (ctx_tenantId ctx) db = a0 # rest"
    and st: "asm_status a0 = pending \<or> asm_status a0 = failed"
    and noai: "\<not> (run_useAI options \<and> env_aiEnabled e)"
    and tenant: "fits 255 (ctx_tenantId ctx)"
    and titles: "\<forall>c \<in> set (applicable_controls a0 db). length (ctl_title c) \<le> 485"
    and model: "run_useAI options \<longrightarrow>
                  fits 100 (case run_aiModel options of None \<Rightarrow> env_aiModel e | Some m \<Rightarrow> m)"
  shows "\<exists>a db'. runAssessment ctx assessmentId options e None db = (Inr a, db')"
proof -
  define t0 where "t0 = \<lparr>tx_db = db, tx_faults = None, tx_uuids = 0, tx_userId = None,
                     tx_changeReason = None\<rparr>"
  have s0: "stmt t0 = Inr t0" by (simp add: stmt_def t0_def)
  obtain r2 t2 where u2: "update_assessment aid (mark_in_progress e) t0 = Inr (r2, t2)"
    and f2: "tx_faults t2 = None"
    and d2: "tx_db t2 = db\<lparr>db_assessments :=
           map (\<lambda>a. if asm_id a = aid then mark_in_progress e a else a) (db_assessments db)\<rparr>"
    by (simp add: update_assessment_def stmt_def and_then_def t0_def)
  have s2: "stmt t2 = Inr t2" using f2 by (rule stmt_no_faults)
  define controls where "controls = applicable_controls a0 (tx_db t2)"
  have c: "controls = applicable_controls a0 db"
    unfolding controls_def by (rule applicable_controls_cong) (simp add: d2)
  from assess_controls_no_faults [OF f2 noai tenant, of controls aid 0 no_counts] titles
  obtain t4 where
    loop: "assess_controls ctx aid options e 0 controls no_counts t2 = Inr (no_counts, t4)"
    and f4: "tx_faults t4 = None"
    unfolding c by blast
  from assess_controls_Inr [OF loop] obtain new where
    d4: "tx_db t4 = (tx_db t2)\<lparr>db_findings := db_findings (tx_db t2) @ new\<rparr>"
    by blast
  define aiModelUsed where "aiModelUsed =
    (if run_useAI options
     then Some (case run_aiModel options of None \<Rightarrow> env_aiModel e | Some m \<Rightarrow> m) else None)"
  have fits: "bind_opt (bind_varchar 100) aiModelUsed = Some aiModelUsed"
    using model by (intro bind_opt_varchar_fits) (simp add: aiModelUsed_def)
  have tx: "text_ok (ctx_tenantId ctx)" using tenant by (simp add: fits_def)
  define upd where "upd = store_results options e 0 (calculateRiskLevel 0) controls no_counts
                            aiModelUsed"
  have "a0 \<in> set (select_assessment aid (ctx_tenantId ctx) db)" using sel by simp
  then have "a0 \<in> set (filter (\<lambda>x. asm_id x = aid) (db_assessments db))"
    by (auto simp: select_assessment_def)
  then have ne: "filter (\<lambda>x. asm_id x = aid) (db_assessments (tx_db t4)) \<noteq> []"
    unfolding d4 d2
    by (auto simp: filter_map_if [where P = "\<lambda>a. asm_id a = aid"] filter_empty_conv)
  then obtain row rows where
    rows: "map upd (filter (\<lambda>x. asm_id x = aid) (db_assessments (tx_db t4))) = row # rows"
    by (cases "filter (\<lambda>x. asm_id x = aid) (db_assessments (tx_db t4))") auto
  obtain t5 where u5: "update_assessment aid upd t4 = Inr (row # rows, t5)"
    and f5: "tx_faults t5 = None"
    using rows f4 by (simp add: update_assessment_def stmt_def and_then_def)
  have c5: "complete_assessment aid options e 0 (calculateRiskLevel 0) controls no_counts t4
              = Inr (row # rows, t5)"
    using u5 fits by (simp add: complete_assessment_def aiModelUsed_def [symmetric] upd_def)
  have s5: "stmt t5 = Inr t5" using f5 by (rule stmt_no_faults)
  have d0: "tx_db t0 = db" by (simp add: t0_def)
  have zero: "overallScore (n_compliant no_counts) (n_nonCompliant no_counts)
                (n_partial no_counts) = 0"
    by (simp add: no_counts_def overallScore_nothing_assessed)
  note loop' = loop [unfolded controls_def]
  note c5' = c5 [unfolded controls_def]
  have "runAssessment ctx assessmentId options e None db = (Inr row, tx_db t5)"
    unfolding runAssessment_def transaction_def t0_def [symmetric]
    using s0 pu tx sel st u2 s2 loop' c5' s5 d0 zero
    by (cases "asm_status a0 = pending") (simp_all add: and_then_def Let_def)
  then show ?thesis by blast
qed

lemma completed_run_score:
  assumes "runAssessment ctx assessmentId options e f db = (Inr a, db')"
  shows "asm_overallScore a =
           Some (overallScore (asm_compliantControls a) (asm_nonCompliantControls a)
                   (asm_partialControls a))"
    and "asm_riskLevel a =
           Some (calculateRiskLevel
                   (overallScore (asm_compliantControls a) (asm_nonCompliantControls a)
                      (asm_partialControls a)))"
proof -
  from runAssessment_Inr [OF assms] obtain a0 cs x0 model where
    "a = store_results options e
               (overallScore (n_compliant cs) (n_nonCompliant cs) (n_partial cs))
               (calculateRiskLevel
                  (overallScore (n_compliant cs) (n_nonCompliant cs) (n_partial cs)))
               (applicable_controls a0 db) cs model (mark_in_progress e x0)"
    by (elim exE conjE)
  then show "asm_overallScore a =
           Some (overallScore (asm_compliantControls a) (asm_nonCompliantControls a)
                   (asm_partialControls a))"
    and "asm_riskLevel a =
           Some (calculateRiskLevel
                   (overallScore (asm_compliantControls a) (asm_nonCompliantControls a)
                      (asm_partialControls a)))"
    by (simp_all add: store_results_def)
qed

text \<open>The example identifiers as the store reads them.\<close>

lemma ex_parse:
  "parse_uuid ex_assessment_id = Some (Uuid ''0a0000000000400080000000000000a1'')"
  "parse_uuid ex_finding_id = Some (Uuid ''0f0000000000400080000000000000f1'')"
  "parse_uuid ex_user_id = Some (Uuid ''0b0000000000400080000000000000b1'')"
  "parse_uuid ''system'' = None"
  by code_simp+

lemmas run_defs = runAssessment_def transaction_def and_then_def stmt_def throw_def tick_Some
  select_assessment_def update_assessment_def applicable_controls_def assess_control_def
  insert_finding_def fresh_uuid_def no_counts_def calculateRiskLevel_def mark_in_progress_def
  store_results_def complete_assessment_def varchar_def bind_varchar_def bind_opt_def
  bind_text_def text_ok_def overallScore_def ex_parse

lemmas ex_defs = ex_ctx_def ex_env_def ex_control_def ex_assessment_def ex_db_def ex_run_def

text \<open>
  C1. A run that starts from a pending or failed assessment and meets an error is claimed to
  leave the status \<open>failed\<close> and no finding of that run. The code has no step that
  writes \<open>failed\<close>: an error rolls the transaction back, so a pending assessment is pending
  again. Here the store fails at the insert of the first finding.
\<close>

theorem runAssessment_error_keeps_pending:
  "fst (runAssessment ex_ctx ex_assessment_id (ex_run True) (ex_env True) (Some 4) (ex_db pending))
     = Inl StorageError
   \<and> map asm_status (db_assessments
        (snd (runAssessment ex_ctx ex_assessment_id (ex_run True) (ex_env True) (Some 4)
               (ex_db pending))))
     = [pending]"
  by (simp add: run_defs ex_defs)

text \<open>
  C1, amended. A run is all or nothing. When it ends with an error, whatever the step that
  failed, the database is the one before the call: the assessment has the status it had and
  no finding of the run is visible. When it returns, the assessment is completed and the run
  has added as many findings as the total it stored.
\<close>

theorem runAssessment_all_or_nothing:
  "runAssessment ctx assessmentId options e f db = (r, db') \<Longrightarrow>
     (\<forall>err. r = Inl err \<longrightarrow> db' = db)
     \<and> (\<forall>a. r = Inr a \<longrightarrow> asm_status a = completed
            \<and> length (db_findings db') = length (db_findings db) + asm_totalControlsAssessed a)"
proof (intro conjI allI impI)
  fix err assume "runAssessment ctx assessmentId options e f db = (r, db')" "r = Inl err"
  then show "db' = db"
    unfolding runAssessment_def using transaction_Inl by blast
next
  fix a assume run: "runAssessment ctx assessmentId options e f db = (r, db')" and r: "r = Inr a"
  from runAssessment_Inr [OF run [unfolded r]] obtain a0 cs new x0 model where
    "db_findings db' = db_findings db @ new"
    "map fnd_controlId new = map ctl_id (applicable_controls a0 db)"
    "a = store_results options e
               (overallScore (n_compliant cs) (n_nonCompliant cs) (n_partial cs))
               (calculateRiskLevel
                  (overallScore (n_compliant cs) (n_nonCompliant cs) (n_partial cs)))
               (applicable_controls a0 db) cs model (mark_in_progress e x0)"
    by blast
  then show "asm_status a = completed"
    by (simp add: store_results_def)
  from \<open>map fnd_controlId new = map ctl_id (applicable_controls a0 db)\<close>
  have "length new = length (applicable_controls a0 db)" by (rule map_eq_imp_length_eq)
  then show "length (db_findings db') = length (db_findings db) + asm_totalControlsAssessed a"
    using \<open>db_findings db' = db_findings db @ new\<close> \<open>a = _\<close> by (simp add: store_results_def)
qed

theorem runAssessment_all_or_nothing_witness:
  "fst (runAssessment ex_ctx ex_assessment_id (ex_run True) (ex_env True) (Some 4) (ex_db pending))
     = Inl StorageError
   \<and> snd (runAssessment ex_ctx ex_assessment_id (ex_run True) (ex_env True) (Some 4)
            (ex_db pending))
     = ex_db pending"
proof -
  have e: "fst (runAssessment ex_ctx ex_assessment_id (ex_run True) (ex_env True) (Some 4)
                  (ex_db pending))
     = Inl StorageError"
    by (simp add: run_defs ex_defs)
  from runAssessment_all_or_nothing [OF prod.collapse [symmetric]] e
  show ?thesis by blast
qed

text \<open>
  C3. Running an assessment whose status is \<open>completed\<close> or \<open>in_progress\<close> ends with an
  error and leaves the database as it was: no finding is inserted, and the findings and the
  aggregate fields that exist are unchanged. The error is \<open>InvalidState\<close> as soon as the
  store executes the three statements of such a call: \<^verbatim>\<open>BEGIN\<close>, the locking \<^verbatim>\<open>SELECT\<close>
  and the \<^verbatim>\<open>ROLLBACK\<close> that follows the check. A run that returns started from \<open>pending\<close>
  or \<open>failed\<close>. The assessment is the row that the identifier given, read as a uuid,
  selects for the tenant of the caller.
\<close>

theorem runAssessment_invalid_state:
  assumes "parse_uuid assessmentId = Some aid"
    and "text_ok (ctx_tenantId ctx)"
    and "select_assessment aid (ctx_tenantId ctx) db = a0 # rest"
  shows "(asm_status a0 = completed \<or> asm_status a0 = in_progress \<longrightarrow>
            (\<exists>err. runAssessment ctx assessmentId options e f db = (Inl err, db)
               \<and> (executes 3 f \<longrightarrow> err = InvalidState (asm_status a0))))
       \<and> (\<forall>a db'. runAssessment ctx assessmentId options e f db = (Inr a, db') \<longrightarrow>
            asm_status a0 = pending \<or> asm_status a0 = failed)"
proof (intro conjI impI allI)
  assume st: "asm_status a0 = completed \<or> asm_status a0 = in_progress"
  then have ne: "asm_status a0 \<noteq> pending" "asm_status a0 \<noteq> failed" by auto
  obtain r db' where run: "runAssessment ctx assessmentId options e f db = (r, db')"
    by (cases "runAssessment ctx assessmentId options e f db")
  show "\<exists>err. runAssessment ctx assessmentId options e f db = (Inl err, db)
          \<and> (executes 3 f \<longrightarrow> err = InvalidState (asm_status a0))"
  proof (cases r)
    case (Inl err)
    with run have "db' = db" unfolding runAssessment_def using transaction_Inl by blast
    with run Inl have *: "runAssessment ctx assessmentId options e f db = (Inl err, db)"
      by simp
    have "executes 3 f \<longrightarrow> err = InvalidState (asm_status a0)"
      using runAssessment_invalid [OF assms ne, of f options e] * by auto
    with * show ?thesis by blast
  next
    case (Inr a)
    with run runAssessment_Inr_status [of ctx assessmentId options e f db a db'] assms ne
    show ?thesis by auto
  qed
next
  fix a db'
  assume "runAssessment ctx assessmentId options e f db = (Inr a, db')"
  from runAssessment_Inr_status [OF this] assms
  show "asm_status a0 = pending \<or> asm_status a0 = failed" by auto
qed

theorem runAssessment_invalid_state_witness:
  "runAssessment ex_ctx ex_assessment_id (ex_run True) (ex_env True) (Some 3) (ex_db completed)
     = (Inl (InvalidState completed), ex_db completed)"
proof -
  have sel: "select_assessment (Uuid ''0a0000000000400080000000000000a1'') (ctx_tenantId ex_ctx)
               (ex_db completed)
      = ex_assessment completed # []"
    by (simp add: select_assessment_def ex_defs)
  have st: "asm_status (ex_assessment completed) = completed" by (simp add: ex_defs)
  have ex: "executes 3 (Some 3)" by (simp add: executes_def)
  have tenant: "text_ok (ctx_tenantId ex_ctx)" by (simp add: ex_defs text_ok_def)
  from runAssessment_invalid_state [OF ex_parse(1) tenant sel, of "ex_run True" "ex_env True"
         "Some 3"] st ex
  show ?thesis by auto
qed

text \<open>
  C5. The stored \<open>totalControlsAssessed\<close> is claimed to be
  \<open>compliantControls + nonCompliantControls + partialControls\<close>. The code stores
  \<^verbatim>\<open>controls.length\<close>. A run without AI over one control stores the total \<open>1\<close> with the
  three counters at \<open>0\<close>.
\<close>

theorem total_counts_not_assessed_control:
  "map asm_status (db_assessments
      (snd (runAssessment ex_ctx ex_assessment_id (ex_run False) (ex_env True) None
              (ex_db pending))))
     = [completed]
   \<and> map asm_totalControlsAssessed (db_assessments
      (snd (runAssessment ex_ctx ex_assessment_id (ex_run False) (ex_env True) None
              (ex_db pending))))
     = [1]
   \<and> map asm_compliantControls (db_assessments
      (snd (runAssessment ex_ctx ex_assessment_id (ex_run False) (ex_env True) None
              (ex_db pending))))
     = [0]
   \<and> map asm_nonCompliantControls (db_assessments
      (snd (runAssessment ex_ctx ex_assessment_id (ex_run False) (ex_env True) None
              (ex_db pending))))
     = [0]
   \<and> map asm_partialControls (db_assessments
      (snd (runAssessment ex_ctx ex_assessment_id (ex_run False) (ex_env True) None
              (ex_db pending))))
     = [0]"
  by (simp add: run_defs ex_defs)

text \<open>
  C5, amended. After a completed run the stored \<open>totalControlsAssessed\<close> is the number of
  controls of the run, which is the number of findings the run inserted, and equals
  \<open>compliantControls + nonCompliantControls + partialControls + notApplicableControls\<close> plus
  the number of findings with status \<open>not_assessed\<close>. This holds of the row returned and of
  every stored row with the identifier of the assessment.
\<close>

theorem total_counts_every_control:
  assumes "runAssessment ctx assessmentId options e f db = (Inr a, db')"
  shows "\<forall>x \<in> set (a # filter (\<lambda>x. Some (asm_id x) = parse_uuid assessmentId)
                          (db_assessments db')).
           asm_status x = completed
           \<and> asm_totalControlsAssessed x = length (db_findings db') - length (db_findings db)
           \<and> asm_totalControlsAssessed x =
               asm_compliantControls x + asm_nonCompliantControls x + asm_partialControls x
               + asm_notApplicableControls x
               + count_status not_assessed (drop (length (db_findings db)) (db_findings db'))"
proof -
  from runAssessment_Inr [OF assms] obtain aid a0 cs new x0 model where
    pu: "parse_uuid assessmentId = Some aid"
    and f: "db_findings db' = db_findings db @ new"
    and m: "map fnd_controlId new = map ctl_id (applicable_controls a0 db)"
    and c: "n_compliant cs = count_status compliant new"
      "n_nonCompliant cs = count_status non_compliant new"
      "n_partial cs = count_status partial new"
      "n_notApplicable cs = count_status not_applicable new"
    and d: "db_assessments db' =
           map (\<lambda>x. if asm_id x = aid
                    then store_results options e
                           (overallScore (n_compliant cs) (n_nonCompliant cs) (n_partial cs))
                           (calculateRiskLevel
                              (overallScore (n_compliant cs) (n_nonCompliant cs) (n_partial cs)))
                           (applicable_controls a0 db) cs model (mark_in_progress e x)
                    else x) (db_assessments db)"
    and a: "a = store_results options e
               (overallScore (n_compliant cs) (n_nonCompliant cs) (n_partial cs))
               (calculateRiskLevel
                  (overallScore (n_compliant cs) (n_nonCompliant cs) (n_partial cs)))
               (applicable_controls a0 db) cs model (mark_in_progress e x0)"
    by blast
  from m have len: "length new = length (applicable_controls a0 db)"
    by (rule map_eq_imp_length_eq)
  define upd where "upd = store_results options e
      (overallScore (n_compliant cs) (n_nonCompliant cs) (n_partial cs))
      (calculateRiskLevel (overallScore (n_compliant cs) (n_nonCompliant cs) (n_partial cs)))
      (applicable_controls a0 db) cs model"
  have each: "asm_status (upd y) = completed
      \<and> asm_totalControlsAssessed (upd y) = length (db_findings db') - length (db_findings db)
      \<and> asm_totalControlsAssessed (upd y) =
          asm_compliantControls (upd y) + asm_nonCompliantControls (upd y)
          + asm_partialControls (upd y) + asm_notApplicableControls (upd y)
          + count_status not_assessed (drop (length (db_findings db)) (db_findings db'))" for y
    using count_status_total [of new] len
    by (simp add: upd_def store_results_def f c)
  have "\<exists>y. x = upd y"
    if "x \<in> set (a # filter (\<lambda>x. Some (asm_id x) = parse_uuid assessmentId)
                        (db_assessments db'))" for x
    using that unfolding d a pu upd_def [symmetric] by (auto split: if_splits)
  with each show ?thesis by blast
qed

theorem total_counts_every_control_witness:
  "asm_totalControlsAssessed
     (ex_assessment pending\<lparr>asm_status := completed, asm_overallScore := Some 0,
        asm_riskLevel := Some critical, asm_totalControlsAssessed := 1,
        asm_startedAt := Some 7, asm_completedAt := Some 7, asm_updatedAt := 7\<rparr>)
   = length (db_findings
       (snd (runAssessment ex_ctx ex_assessment_id (ex_run False) (ex_env True) None
               (ex_db pending))))
     - length (db_findings (ex_db pending))"
proof -
  have r: "fst (runAssessment ex_ctx ex_assessment_id (ex_run False) (ex_env True) None
                  (ex_db pending))
      = Inr (ex_assessment pending\<lparr>asm_status := completed, asm_overallScore := Some 0,
        asm_riskLevel := Some critical, asm_totalControlsAssessed := 1,
        asm_startedAt := Some 7, asm_completedAt := Some 7, asm_updatedAt := 7\<rparr>)"
    by (simp add: run_defs ex_defs)
  have "runAssessment ex_ctx ex_assessment_id (ex_run False) (ex_env True) None (ex_db pending)
      = (Inr (ex_assessment pending\<lparr>asm_status := completed, asm_overallScore := Some 0,
        asm_riskLevel := Some critical, asm_totalControlsAssessed := 1,
        asm_startedAt := Some 7, asm_completedAt := Some 7, asm_updatedAt := 7\<rparr>),
         snd (runAssessment ex_ctx ex_assessment_id (ex_run False) (ex_env True) None
                (ex_db pending)))"
    using r by (metis prod.collapse)
  from total_counts_every_control [OF this] show ?thesis by simp
qed

text \<open>
  C6. Without AI every control is claimed to get one finding with status \<open>not_assessed\<close>
  and zero confidence. The insert stores \<^verbatim>\<open>options.useAI ? aiConfidence : null\<close>: with
  \<^verbatim>\<open>useAI\<close> false the finding has no confidence at all.
\<close>

theorem finding_without_ai_has_no_confidence:
  "map fnd_status (db_findings
      (snd (runAssessment ex_ctx ex_assessment_id (ex_run False) (ex_env True) None
              (ex_db pending))))
     = [not_assessed]
   \<and> map fnd_aiConfidence (db_findings
      (snd (runAssessment ex_ctx ex_assessment_id (ex_run False) (ex_env True) None
              (ex_db pending))))
     = [None]"
  by (simp add: run_defs ex_defs)

text \<open>
  C6, amended. When \<^verbatim>\<open>useAI\<close> is false or AI is not enabled in the configuration, every run
  that returns has inserted exactly one finding for each applicable control, in the order of
  the controls, each with status \<open>not_assessed\<close>. The confidence of such a finding is \<open>0\<close>
  when \<^verbatim>\<open>useAI\<close> was asked for and AI is not enabled, and is absent when \<^verbatim>\<open>useAI\<close> is false.
  A run from \<open>pending\<close> or \<open>failed\<close> on a store that does not fail returns when the values
  it binds fit their columns: the tenant fits \<^verbatim>\<open>VARCHAR(255)\<close>, the title of every
  applicable control has at most 485 characters, which leaves room for \<^verbatim>\<open> - not_assessed\<close>
  in \<^verbatim>\<open>finding_title VARCHAR(500)\<close>, and the name of the model, when \<^verbatim>\<open>useAI\<close> was
  asked for, fits \<^verbatim>\<open>VARCHAR(100)\<close>.
\<close>

theorem run_without_ai_records_every_control:
  assumes "parse_uuid assessmentId = Some aid"
    and "select_assessment aid (ctx_tenantId ctx) db = a0 # rest"
    and "asm_status a0 = pending \<or> asm_status a0 = failed"
    and "\<not> (run_useAI options \<and> env_aiEnabled e)"
  shows "(fits 255 (ctx_tenantId ctx)
            \<and> (\<forall>c \<in> set (applicable_controls a0 db). length (ctl_title c) \<le> 485)
            \<and> (run_useAI options \<longrightarrow>
                 fits 100 (case run_aiModel options of None \<Rightarrow> env_aiModel e | Some m \<Rightarrow> m))
          \<longrightarrow> (\<exists>a db'. runAssessment ctx assessmentId options e None db = (Inr a, db')))
       \<and> (\<forall>a db'. runAssessment ctx assessmentId options e f db = (Inr a, db') \<longrightarrow>
            (\<exists>new. db_findings db' = db_findings db @ new
               \<and> map fnd_controlId new = map ctl_id (applicable_controls a0 db)
               \<and> (\<forall>r \<in> set new. fnd_assessmentId r = aid
                      \<and> fnd_status r = not_assessed
                      \<and> fnd_aiConfidence r = (if run_useAI options then Some 0 else None))))"
proof (intro conjI allI impI)
  assume "fits 255 (ctx_tenantId ctx)
            \<and> (\<forall>c \<in> set (applicable_controls a0 db). length (ctl_title c) \<le> 485)
            \<and> (run_useAI options \<longrightarrow>
                 fits 100 (case run_aiModel options of None \<Rightarrow> env_aiModel e | Some m \<Rightarrow> m))"
  then show "\<exists>a db'. runAssessment ctx assessmentId options e None db = (Inr a, db')"
    using runAssessment_no_faults [OF assms] by blast
next
  fix a db'
  assume "runAssessment ctx assessmentId options e f db = (Inr a, db')"
  from runAssessment_Inr [OF this] assms(1,2,4)
  show "\<exists>new. db_findings db' = db_findings db @ new
               \<and> map fnd_controlId new = map ctl_id (applicable_controls a0 db)
               \<and> (\<forall>r \<in> set new. fnd_assessmentId r = aid
                      \<and> fnd_status r = not_assessed
                      \<and> fnd_aiConfidence r = (if run_useAI options then Some 0 else None))"
    by (elim exE conjE, intro exI) auto
qed

theorem run_without_ai_records_every_control_witness:
  "map fnd_controlId (db_findings
      (snd (runAssessment ex_ctx ex_assessment_id (ex_run True) (ex_env False) None
              (ex_db pending))))
     = [''c1'']
   \<and> map fnd_status (db_findings
      (snd (runAssessment ex_ctx ex_assessment_id (ex_run True) (ex_env False) None
              (ex_db pending))))
     = [not_assessed]
   \<and> map fnd_aiConfidence (db_findings
      (snd (runAssessment ex_ctx ex_assessment_id (ex_run True) (ex_env False) None
              (ex_db pending))))
     = [Some 0]"
proof -
  have sel: "select_assessment (Uuid ''0a0000000000400080000000000000a1'') (ctx_tenantId ex_ctx)
               (ex_db pending)
      = ex_assessment pending # []"
    by (simp add: select_assessment_def ex_defs)
  have st: "asm_status (ex_assessment pending) = pending \<or> asm_status (ex_assessment pending) = failed"
    by (simp add: ex_defs)
  have ai: "\<not> (run_useAI (ex_run True) \<and> env_aiEnabled (ex_env False))"
    by (simp add: ex_defs)
  have ctl: "applicable_controls (ex_assessment pending) (ex_db pending) = [ex_control]"
    by (simp add: applicable_controls_def ex_defs)
  have nil: "db_findings (ex_db pending) = []" by (simp add: ex_defs)
  have fits: "fits 255 (ctx_tenantId ex_ctx)
            \<and> (\<forall>c \<in> set (applicable_controls (ex_assessment pending) (ex_db pending)).
                  length (ctl_title c) \<le> 485)
            \<and> (run_useAI (ex_run True) \<longrightarrow>
                 fits 100 (case run_aiModel (ex_run True) of
                             None \<Rightarrow> env_aiModel (ex_env False) | Some m \<Rightarrow> m))"
    unfolding ctl by (simp add: ex_defs fits_def text_ok_def)
  note inst = run_without_ai_records_every_control [OF ex_parse(1) sel st ai, of None]
  from inst fits obtain a db' where
    run: "runAssessment ex_ctx ex_assessment_id (ex_run True) (ex_env False) None (ex_db pending)
            = (Inr a, db')"
    by blast
  with inst obtain new where
    new: "db_findings db' = db_findings (ex_db pending) @ new"
      "map fnd_controlId new = map ctl_id (applicable_controls (ex_assessment pending) (ex_db pending))"
      "\<forall>r \<in> set new. fnd_assessmentId r = Uuid ''0a0000000000400080000000000000a1''
          \<and> fnd_status r = not_assessed
          \<and> fnd_aiConfidence r = (if run_useAI (ex_run True) then Some 0 else None)"
    by blast
  have m: "map fnd_controlId new = [''c1'']"
    using new(2) unfolding ctl by (simp add: ex_control_def)
  then obtain r where r: "new = [r]" by (cases new) auto
  with m new(3) have "fnd_controlId r = ''c1''" "fnd_status r = not_assessed"
    "fnd_aiConfidence r = Some 0"
    by (simp_all add: ex_run_def)
  then show ?thesis
    unfolding run snd_conv new(1) nil r by simp
qed

text \<open>
  A title of 490 characters does not leave that room: the insert of the finding is rejected,
  the run ends with the error of the store and inserts nothing.
\<close>

lemma run_with_long_title_fails:
  "runAssessment ex_ctx ex_assessment_id (ex_run False) (ex_env True) None ex_long_db
     = (Inl DataError, ex_long_db)"
  by (simp add: run_defs ex_defs ex_long_db_def ex_long_control_def)

text \<open>
  C2. The persisted score is claimed to equal \<open>round (100 * c / t + 50 * p / t)\<close>. A run
  over twelve controls that finds \<open>4\<close> compliant, \<open>7\<close> non-compliant and \<open>1\<close> partial persists
  the score \<open>37\<close>, whereas the formula gives \<open>round 37.5 = 38\<close>: the code computes
  \<^verbatim>\<open>(4 / 12) * 100 + (1 / 12) * 50\<close> in doubles,
  \<open>33.33333333333333 + 4.166666666666666 = 37.49999999999999\<close>. The rest of the claim holds:
  by \<open>overallScore_vs_formula\<close> the two agree whenever the exact value is not halfway between
  two integers, and the code is never above the formula and at most one below it; the score
  of a run with nothing assessed is \<open>0\<close>; the stored risk level is \<open>calculateRiskLevel\<close> of
  the stored score (\<open>completed_run_score\<close>), with the thresholds \<open>90\<close>, \<open>70\<close> and \<open>50\<close>
  (\<open>calculateRiskLevel_thresholds\<close>).
\<close>

lemma fl_literals:
  "fl (3/5) = 5404319552844595 / 9007199254740992"
  "fl (9/10) = 8106479329266893 / 9007199254740992"
  by code_simp+

lemma score_4_7_1: "overallScore 4 7 1 = 37 \<and> spec_score 4 7 1 = 38"
  by code_simp

lemma score_4_7_1_Suc:
  "overallScore (Suc (Suc (Suc (Suc 0)))) (Suc (Suc (Suc (Suc (Suc (Suc (Suc 0))))))) (Suc 0) = 37"
  using score_4_7_1 by (simp add: eval_nat_numeral)

lemmas run_steps = runAssessment_def transaction_def and_then_def stmt_def throw_def tick_Some
  select_assessment_def update_assessment_def applicable_controls_def assess_control_def
  insert_finding_def fresh_uuid_def no_counts_def calculateRiskLevel_def mark_in_progress_def
  store_results_def complete_assessment_def varchar_def bind_varchar_def bind_opt_def
  bind_text_def text_ok_def ex_parse

theorem score_tie_rounds_down:
  "map_sum (\<lambda>err. ())
     (\<lambda>a. (asm_status a, asm_compliantControls a, asm_nonCompliantControls a,
           asm_partialControls a, asm_overallScore a, asm_riskLevel a))
     (fst (runAssessment ex_ctx ex_assessment_id (ex_run True) ex_env12 None ex_db12))
   = Inr (completed, 4, 7, 1, Some 37, Some critical)
   \<and> overallScore 4 7 1 = 37
   \<and> spec_score 4 7 1 = 38"
  using score_4_7_1
  by (simp add: run_steps ex_defs ex_env12_def ex_db12_def fl_literals score_4_7_1_Suc Let_def)

section \<open>Gate, toggles and finding updates\<close>

lemma get_property_True: "get_property c k = Boolean True \<longleftrightarrow> own_property c k = Some True"
  by (auto simp: get_property_def split: option.splits)

text \<open>
  \<^verbatim>\<open>getConfig\<close> returns the row stored for the tenant when there is one and leaves the store
  as it is; when there is none it creates the configuration with the module defaults and the
  master switch on.
\<close>

lemma getConfig_stored:
  assumes "text_ok tenantId" and "select_config tenantId db = config # rest"
    and "executes 1 f"
  shows "getConfig tenantId e f db = (Inr config, db)"
proof -
  from assms(3) obtain f' where "tick f = Inr f'"
    using tick_executes [of 0 f] by auto
  with assms(1,2) show ?thesis by (simp add: getConfig_def)
qed

lemma getConfig_creates_default:
  assumes "fits 255 tenantId" and "select_config tenantId db = []" and "executes 2 f"
  shows "getConfig tenantId e f db =
           (Inr \<lparr>cfg_id = env_uuid e 0, cfg_tenantId = tenantId, cfg_masterEnabled = True,
                  cfg_moduleConfig = DEFAULT_MODULE_CONFIG,
                  cfg_createdAt = env_now e, cfg_updatedAt = env_now e\<rparr>,
            db\<lparr>db_configs := db_configs db @
                 [\<lparr>cfg_id = env_uuid e 0, cfg_tenantId = tenantId, cfg_masterEnabled = True,
                   cfg_moduleConfig = DEFAULT_MODULE_CONFIG,
                   cfg_createdAt = env_now e, cfg_updatedAt = env_now e\<rparr>]\<rparr>)"
proof -
  from assms(3) obtain f1 where f1: "tick f = Inr f1" "executes 1 f1"
    using tick_executes [of 1 f] by (auto simp: numeral_2_eq_2)
  from f1(2) obtain f2 where f2: "tick f1 = Inr f2"
    using tick_executes [of 0 f1] by auto
  have "text_ok tenantId" using assms(1) by (simp add: fits_def)
  then show ?thesis
    using assms(1,2) f1(1) f2
    by (simp add: getConfig_def createDefaultConfig_def bind_varchar_fits Let_def)
qed

text \<open>
  C4. With a feature name given, the gate is claimed to return that feature's value, false
  when the key is absent. The empty string is a feature name that is given and is absent from
  the record, yet \<^verbatim>\<open>!feature\<close> holds for it and the gate returns true.
\<close>

theorem isEnabled_empty_feature_name:
  "isEnabled ''t1'' Gdpr (Some []) (ex_env True) None (ex_config_db True)
     = (Inr True, ex_config_db True)
   \<and> own_property (module_of (cfg_moduleConfig (ex_config True)) Gdpr) [] = None"
  by (simp add: isEnabled_def getConfig_def select_config_def falsy_def own_property_def
        text_ok_def DEFAULT_MODULE_CONFIG_def ex_config_db_def ex_config_def ex_empty_db_def)

text \<open>
  C4, amended. Let the store hold a configuration for the tenant, whose name is a text the
  store accepts, and let it execute the one statement of the call. The gate returns false
  when the master switch of that configuration is off, whatever the modules say; else false
  when the module is off; else, for a feature name that is not empty, whether the module's
  record holds true under that name (false when the key is absent); else, with no feature or
  the empty string, true. The store is left as it was.
\<close>

theorem isEnabled_gate:
  assumes "text_ok tenantId" and "select_config tenantId db = config # rest"
    and "executes 1 f"
  shows "isEnabled tenantId moduleName feature e f db =
          (Inr (if \<not> cfg_masterEnabled config then False
                else if \<not> enabled (module_of (cfg_moduleConfig config) moduleName) then False
                else case feature of
                       None \<Rightarrow> True
                     | Some name \<Rightarrow>
                         if name = [] then True
                         else own_property (module_of (cfg_moduleConfig config) moduleName) name
                              = Some True),
           db)"
  using getConfig_stored [OF assms, of e]
  by (auto simp: isEnabled_def falsy_def get_property_True Let_def split: option.splits)

theorem isEnabled_gate_witness:
  "isEnabled ''t1'' Gdpr (Some ''dataErasure'') (ex_env True) (Some 1) (ex_config_db True)
     = (Inr True, ex_config_db True)
   \<and> isEnabled ''t1'' Gdpr (Some ''dataErasure'') (ex_env True) (Some 1) (ex_config_db False)
     = (Inr False, ex_config_db False)"
proof -
  have sel: "select_config ''t1'' (ex_config_db master) = ex_config master # []" for master
    by (simp add: select_config_def ex_config_db_def ex_config_def ex_empty_db_def)
  have ex: "executes 1 (Some 1)" by (simp add: executes_def)
  have tenant: "text_ok ''t1''" by (simp add: text_ok_def)
  have m: "cfg_masterEnabled (ex_config master) = master"
    "enabled (module_of (cfg_moduleConfig (ex_config master)) Gdpr)"
    "own_property (module_of (cfg_moduleConfig (ex_config master)) Gdpr) ''dataErasure''
       = Some True" for master
    by (simp_all add: ex_config_def DEFAULT_MODULE_CONFIG_def own_property_def)
  from isEnabled_gate [OF tenant sel [of True] ex, where moduleName = Gdpr
                         and feature = "Some ''dataErasure''" and e = "ex_env True"]
    isEnabled_gate [OF tenant sel [of False] ex, where moduleName = Gdpr
                      and feature = "Some ''dataErasure''" and e = "ex_env True"] m
  show ?thesis by simp
qed

text \<open>
  For a tenant without a stored configuration the gate works on the default configuration
  that \<^verbatim>\<open>getConfig\<close> creates, whose master switch is on.
\<close>

lemma isEnabled_without_config:
  assumes "fits 255 tenantId" and "select_config tenantId db = []" and "executes 2 f"
  shows "fst (isEnabled tenantId moduleName feature e f db) =
          Inr (if \<not> enabled (module_of DEFAULT_MODULE_CONFIG moduleName) then False
               else case feature of
                      None \<Rightarrow> True
                    | Some name \<Rightarrow>
                        if name = [] then True
                        else own_property (module_of DEFAULT_MODULE_CONFIG moduleName) name
                             = Some True)"
  using getConfig_creates_default [OF assms, of e]
  by (auto simp: isEnabled_def falsy_def get_property_True Let_def split: option.splits)

text \<open>
  C8. Every update that overrides status, severity or remediation fields is claimed to mark
  the finding as verified by a human. The verification columns are set only under
  \<^verbatim>\<open>if (updates.status && updates.status !== 'not_assessed')\<close>: an update of the severity
  alone leaves the finding unverified.
\<close>

lemmas update_defs = updateFinding_def apply_updates_def no_updates_def verifies_def
  set_column_def set_nullable_def bind_opt_def bind_text_def bind_varchar_def varchar_def
  text_ok_def ex_parse ex_updates_def ex_findings_db_def
  ex_finding_def ex_db_def ex_ctx_def ex_env_def ex_system_ctx_def

theorem severity_update_is_not_verified:
  "map fnd_severity (db_findings
      (snd (updateFinding ex_ctx ex_finding_id (ex_updates None (Some major)) (ex_env True) None
              ex_findings_db)))
     = [Some major]
   \<and> map fnd_humanVerified (db_findings
      (snd (updateFinding ex_ctx ex_finding_id (ex_updates None (Some major)) (ex_env True) None
              ex_findings_db)))
     = [False]
   \<and> map fnd_verifiedBy (db_findings
      (snd (updateFinding ex_ctx ex_finding_id (ex_updates None (Some major)) (ex_env True) None
              ex_findings_db)))
     = [None]"
  by (simp add: update_defs)

text \<open>
  C8, amended. An update that sets the status to a value other than \<open>not_assessed\<close> marks the
  finding as verified, with the calling user, whose id the column \<^verbatim>\<open>verified_by\<close> holds as
  a uuid, and the time of the update; any other update leaves the three verification columns
  as they were. No update changes a row of the assessments, whether it succeeds or fails:
  score and counters are never recomputed. An update returns when it sets a column, the
  store executes its statement, the finding identified exists for the tenant, the texts
  given fit their columns, and, where it verifies, the user id is the text of a uuid.
\<close>

theorem updateFinding_verification:
  "db_assessments (snd (updateFinding ctx findingId updates e f db)) = db_assessments db
   \<and> (\<forall>row db'. updateFinding ctx findingId updates e f db = (Inr row, db') \<longrightarrow>
        row \<in> set (db_findings db')
        \<and> (\<exists>old \<in> set (db_findings db).
              Some (fnd_id old) = parse_uuid findingId \<and> fnd_tenantId old = ctx_tenantId ctx
              \<and> (if \<exists>s. upd_status updates = Some s \<and> s \<noteq> not_assessed
                  then fnd_humanVerified row
                       \<and> (\<exists>user. parse_uuid (ctx_userId ctx) = Some user
                                 \<and> fnd_verifiedBy row = Some user)
                       \<and> fnd_verifiedAt row = Some (env_now e)
                  else fnd_humanVerified row = fnd_humanVerified old
                       \<and> fnd_verifiedBy row = fnd_verifiedBy old
                       \<and> fnd_verifiedAt row = fnd_verifiedAt old)))
   \<and> (\<forall>old \<in> set (db_findings db).
        Some (fnd_id old) = parse_uuid findingId \<and> fnd_tenantId old = ctx_tenantId ctx
        \<and> \<not> no_updates updates \<and> executes 1 f
        \<and> text_ok (ctx_tenantId ctx) \<and> updates_fit updates
        \<and> (verifies updates \<longrightarrow> parse_uuid (ctx_userId ctx) \<noteq> None)
        \<longrightarrow> (\<exists>row db'. updateFinding ctx findingId updates e f db = (Inr row, db')))"
proof (intro conjI allI impI ballI)
  show "db_assessments (snd (updateFinding ctx findingId updates e f db)) = db_assessments db"
    by (auto simp: updateFinding_def Let_def split: sum.splits list.splits option.splits)
next
  fix row db'
  assume run: "updateFinding ctx findingId updates e f db = (Inr row, db')"
  from run have nn: "\<not> no_updates updates"
    by (auto simp: updateFinding_def)
  from run nn obtain f' where f': "tick f = Inr f'"
    by (auto simp: updateFinding_def split: sum.splits)
  from run nn f' obtain fid where pu: "parse_uuid findingId = Some fid"
    by (cases "parse_uuid findingId") (auto simp: updateFinding_def)
  from run nn f' pu obtain verifiedBy where
    vb: "(if verifies updates then map_option Some (parse_uuid (ctx_userId ctx))
          else Some None) = Some verifiedBy"
    by (cases "if verifies updates then map_option Some (parse_uuid (ctx_userId ctx))
               else Some None")
       (auto simp: updateFinding_def)
  from run nn f' pu vb obtain tenant where
    te: "bind_text (ctx_tenantId ctx) = Some tenant"
    by (cases "bind_text (ctx_tenantId ctx)") (auto simp: updateFinding_def)
  from run nn f' pu vb te obtain title where
    ti: "bind_opt (bind_varchar 500) (upd_findingTitle updates) = Some title"
    by (cases "bind_opt (bind_varchar 500) (upd_findingTitle updates)")
       (auto simp: updateFinding_def)
  from run nn f' pu vb te ti obtain owner where
    ow: "bind_opt (bind_varchar 255) (upd_remediationOwner updates) = Some owner"
    by (cases "bind_opt (bind_varchar 255) (upd_remediationOwner updates)")
       (auto simp: updateFinding_def)
  from run nn f' pu vb te ti ow obtain findingDescription where
    de: "bind_opt bind_text (upd_findingDescription updates) = Some findingDescription"
    by (cases "bind_opt bind_text (upd_findingDescription updates)")
       (auto simp: updateFinding_def)
  from run nn f' pu vb te ti ow de obtain remediationPlan where
    pl: "bind_opt bind_text (upd_remediationPlan updates) = Some remediationPlan"
    by (cases "bind_opt bind_text (upd_remediationPlan updates)")
       (auto simp: updateFinding_def)
  from run nn f' pu vb te ti ow de pl obtain verificationNotes where
    vn: "bind_opt bind_text (upd_verificationNotes updates) = Some verificationNotes"
    by (cases "bind_opt bind_text (upd_verificationNotes updates)")
       (auto simp: updateFinding_def)
  define u where "u = updates\<lparr>upd_findingTitle := title, upd_remediationOwner := owner\<rparr>"
  define hit where "hit = (\<lambda>r::ControlFinding. fnd_id r = fid \<and> fnd_tenantId r = ctx_tenantId ctx)"
  have eq: "updateFinding ctx findingId updates e f db =
      (case filter hit (db_findings db) of
         [] \<Rightarrow> (Inl FindingNotFound, db)
       | r # _ \<Rightarrow>
           (Inr (apply_updates verifiedBy u e r),
            db\<lparr>db_findings :=
                 map (\<lambda>r. if hit r then apply_updates verifiedBy u e r else r)
                     (db_findings db)\<rparr>))"
    unfolding hit_def u_def using nn f' pu vb te ti ow de pl vn
    by (simp add: updateFinding_def Let_def)
  from run [unfolded eq] obtain old rest where
    old: "filter hit (db_findings db) = old # rest"
    and row: "row = apply_updates verifiedBy u e old"
    and db': "db' = db\<lparr>db_findings :=
        map (\<lambda>r. if hit r then apply_updates verifiedBy u e r else r) (db_findings db)\<rparr>"
    by (cases "filter hit (db_findings db)") auto
  have "old \<in> set (filter hit (db_findings db))" using old by simp
  then have mem: "old \<in> set (db_findings db)" and h: "hit old" by auto
  then show "row \<in> set (db_findings db')"
    unfolding row db' by (auto simp: image_iff intro!: bexI [of _ old])
  have v: "verifies u \<longleftrightarrow> (\<exists>s. upd_status updates = Some s \<and> s \<noteq> not_assessed)"
    "verifies updates = verifies u"
    by (auto simp: verifies_def u_def split: option.splits)
  have user: "verifies u \<Longrightarrow> \<exists>user. parse_uuid (ctx_userId ctx) = Some user \<and> verifiedBy = Some user"
    using vb unfolding v(2) by (auto split: if_splits)
  show "\<exists>old \<in> set (db_findings db).
          Some (fnd_id old) = parse_uuid findingId \<and> fnd_tenantId old = ctx_tenantId ctx
          \<and> (if \<exists>s. upd_status updates = Some s \<and> s \<noteq> not_assessed
              then fnd_humanVerified row
                   \<and> (\<exists>user. parse_uuid (ctx_userId ctx) = Some user
                             \<and> fnd_verifiedBy row = Some user)
                   \<and> fnd_verifiedAt row = Some (env_now e)
              else fnd_humanVerified row = fnd_humanVerified old
                   \<and> fnd_verifiedBy row = fnd_verifiedBy old
                   \<and> fnd_verifiedAt row = fnd_verifiedAt old)"
    using mem h user unfolding row hit_def v(1) [symmetric] pu
    by (intro bexI [of _ old]) (simp_all add: apply_updates_def)
next
  fix old
  assume old: "old \<in> set (db_findings db)"
    and a: "Some (fnd_id old) = parse_uuid findingId \<and> fnd_tenantId old = ctx_tenantId ctx
        \<and> \<not> no_updates updates \<and> executes 1 f
        \<and> text_ok (ctx_tenantId ctx) \<and> updates_fit updates
        \<and> (verifies updates \<longrightarrow> parse_uuid (ctx_userId ctx) \<noteq> None)"
  from a obtain f' where f': "tick f = Inr f'"
    using tick_executes [of 0 f] by auto
  from a have pu: "parse_uuid findingId = Some (fnd_id old)" by simp
  from a have te: "bind_text (ctx_tenantId ctx) = Some (ctx_tenantId ctx)"
    by (simp add: bind_text_def)
  from a have ti: "bind_opt (bind_varchar 500) (upd_findingTitle updates)
                     = Some (upd_findingTitle updates)"
    and ow: "bind_opt (bind_varchar 255) (upd_remediationOwner updates)
               = Some (upd_remediationOwner updates)"
    and de: "bind_opt bind_text (upd_findingDescription updates)
               = Some (upd_findingDescription updates)"
    and pl: "bind_opt bind_text (upd_remediationPlan updates)
               = Some (upd_remediationPlan updates)"
    and vn: "bind_opt bind_text (upd_verificationNotes updates)
               = Some (upd_verificationNotes updates)"
    by (simp_all add: updates_fit_def bind_opt_varchar_fits bind_opt_text_ok)
  from a obtain verifiedBy where
    vb: "(if verifies updates then map_option Some (parse_uuid (ctx_userId ctx))
          else Some None) = Some verifiedBy"
    by (cases "verifies updates") auto
  define hit where
    "hit = (\<lambda>r::ControlFinding. fnd_id r = fnd_id old \<and> fnd_tenantId r = ctx_tenantId ctx)"
  have "old \<in> set (filter hit (db_findings db))" using old a by (simp add: hit_def)
  then obtain r rs where hits: "filter hit (db_findings db) = r # rs"
    by (cases "filter hit (db_findings db)") auto
  show "\<exists>row db'. updateFinding ctx findingId updates e f db = (Inr row, db')"
    using a f' pu te ti ow de pl vn vb hits
    by (simp add: updateFinding_def hit_def Let_def)
qed

theorem updateFinding_verification_witness:
  "map fnd_humanVerified (db_findings
      (snd (updateFinding ex_ctx ex_finding_id (ex_updates (Some compliant) None) (ex_env True)
              (Some 1) ex_findings_db)))
     = [True]
   \<and> map fnd_verifiedBy (db_findings
      (snd (updateFinding ex_ctx ex_finding_id (ex_updates (Some compliant) None) (ex_env True)
              (Some 1) ex_findings_db)))
     = [Some (Uuid ''0b0000000000400080000000000000b1'')]
   \<and> db_assessments
      (snd (updateFinding ex_ctx ex_finding_id (ex_updates (Some compliant) None) (ex_env True)
              (Some 1) ex_findings_db))
     = db_assessments ex_findings_db"
proof -
  note inst = updateFinding_verification
         [of ex_ctx ex_finding_id "ex_updates (Some compliant) None" "ex_env True" "Some 1"
             ex_findings_db]
  have mem: "ex_finding \<in> set (db_findings ex_findings_db)"
    by (simp add: ex_findings_db_def)
  have pre: "Some (fnd_id ex_finding) = parse_uuid ex_finding_id
        \<and> fnd_tenantId ex_finding = ctx_tenantId ex_ctx
        \<and> \<not> no_updates (ex_updates (Some compliant) None) \<and> executes 1 (Some 1)
        \<and> text_ok (ctx_tenantId ex_ctx) \<and> updates_fit (ex_updates (Some compliant) None)
        \<and> (verifies (ex_updates (Some compliant) None)
              \<longrightarrow> parse_uuid (ctx_userId ex_ctx) \<noteq> None)"
    by (simp add: ex_parse ex_finding_def ex_ctx_def ex_updates_def no_updates_def executes_def
          updates_fit_def text_ok_def)
  from inst [THEN conjunct2, THEN conjunct2, rule_format, OF mem pre]
  obtain row db' where
    run: "updateFinding ex_ctx ex_finding_id (ex_updates (Some compliant) None) (ex_env True)
            (Some 1) ex_findings_db = (Inr row, db')"
    by blast
  have rows: "map fnd_humanVerified (db_findings db') = [True]"
    "map fnd_verifiedBy (db_findings db') = [Some (Uuid ''0b0000000000400080000000000000b1'')]"
    using run by (auto simp: update_defs tick_Some)
  from inst [THEN conjunct1] rows show ?thesis
    unfolding run by simp
qed

text \<open>
  The routes give a caller without the header \<^verbatim>\<open>x-user-id\<close> the user id \<^verbatim>\<open>system\<close>, which
  is not the text of a uuid: the store rejects the update that would verify the finding, and
  the finding stays unverified.
\<close>

lemma verification_by_system_user_is_rejected:
  "updateFinding ex_system_ctx ex_finding_id (ex_updates (Some compliant) None) (ex_env True)
     None ex_findings_db
   = (Inl DataError, ex_findings_db)"
  by (simp add: update_defs)






text \<open>
  The gate with the feature name \<^verbatim>\<open>enabled\<close>: true exactly when the master switch and the
  module are on.
\<close>

lemma isEnabled_feature_enabled:
  assumes "text_ok tenantId" and "select_config tenantId db = config # rest"
    and "executes 1 f"
  shows "isEnabled tenantId moduleName (Some ''enabled'') e f db =
           (Inr (cfg_masterEnabled config
                 \<and> enabled (module_of (cfg_moduleConfig config) moduleName)), db)"
  using getConfig_stored [OF assms, of e]
  by (auto simp: isEnabled_def falsy_def get_property_def own_property_def Let_def)

lemma enabled_is_a_property: "has_property ''enabled'' moduleConfig"
  by (simp add: has_property_def own_property_def)

lemmas toggle_defs = toggleMaster_def toggleModule_def transaction_def and_then_def stmt_def
  throw_def tick_Some set_local_user_def set_local_reason_def

lemmas gate_defs = isEnabled_def getConfig_def select_config_def falsy_def get_property_def
  own_property_def has_property_def DEFAULT_MODULE_CONFIG_def ex_config_db_def ex_config_def
  ex_empty_db_def audit_rows_def text_ok_def Let_def

text \<open>
  C10. Toggling a module through the feature name \<^verbatim>\<open>enabled\<close> is claimed to set the
  module's own flag and to record the action \<^verbatim>\<open>TOGGLE_FEATURE\<close>. The name is a key of the
  record and the call does not raise \<open>InvalidFeature\<close>; but the store rejects the first
  statement of the transaction, so the call throws that error, the module stays enabled, no
  audit row is written, and the gate still answers true.
\<close>

theorem toggle_with_feature_enabled_is_rejected:
  "toggleModule ex_ctx (ex_toggle Gdpr False (Some ''enabled'')) (ex_env True) None
     (ex_config_db True)
     = (Inl SyntaxError, ex_config_db True)
   \<and> has_property ''enabled'' (module_of (cfg_moduleConfig (ex_config True)) Gdpr)
   \<and> map (\<lambda>c. enabled (module_of (cfg_moduleConfig c) Gdpr))
        (db_configs (snd (toggleModule ex_ctx (ex_toggle Gdpr False (Some ''enabled''))
                            (ex_env True) None (ex_config_db True))))
     = [True]
   \<and> audit_rows ''t1'' (snd (toggleModule ex_ctx (ex_toggle Gdpr False (Some ''enabled''))
                                (ex_env True) None (ex_config_db True)))
     = []
   \<and> fst (isEnabled ''t1'' Gdpr (Some ''enabled'') (ex_env True) None
             (snd (toggleModule ex_ctx (ex_toggle Gdpr False (Some ''enabled''))
                     (ex_env True) None (ex_config_db True))))
     = Inr True"
  by (simp add: toggle_defs gate_defs)

theorem toggle_with_feature_enabled_is_rejected_witness:
  "own_property (module_of (cfg_moduleConfig (ex_config True)) Gdpr) ''enabled'' = Some True
   \<and> snd (toggleModule ex_ctx (ex_toggle Gdpr False (Some ''enabled'')) (ex_env True) None
            (ex_config_db True))
     = ex_config_db True"
  using toggle_with_feature_enabled_is_rejected
  by (simp add: own_property_def ex_config_def DEFAULT_MODULE_CONFIG_def)



end
